theory Spec2Isabelle
  imports Main
begin

section \<open>Values shared by all packages\<close>

text \<open>
  Times are Unix times in whole seconds, the resolution of the date fields of a token
  (\<^verbatim>\<open>jwt.NewNumericDate\<close> drops the sub-second part of \<^verbatim>\<open>time.Now()\<close>).
  A function of type \<open>nat \<Rightarrow> time\<close> is the clock seen by one call: its value at \<open>k\<close>
  is what the \<open>k\<close>-th call of \<^verbatim>\<open>time.Now()\<close> returns.
\<close>

type_synonym time = int

definition Hour :: int where
  "Hour = 3600"

definition Minute :: int where
  "Minute = 60"

text \<open>
  A Go \<^verbatim>\<open>interface{}\<close> holding a user identifier. The relational backend puts its
  \<^verbatim>\<open>uint\<close> key there (a JSON number, a \<^verbatim>\<open>float64\<close> once a token has been decoded);
  the document backend puts the hexadecimal string of its ObjectID.
\<close>

datatype iface = INum nat | IStr string

datatype error =
    ErrPasswordTooLong
  | ErrEntropy
  | ErrHashMalformed
  | ErrMismatchedHashAndPassword
  | ErrSigning
  | ErrTokenMalformed
  | ErrTokenSignatureInvalid
  | ErrTokenExpired
  | ErrTokenNotValidYet
  | ErrSignatureInvalid
  | ErrRecordNotFound
  | ErrNoDocuments
  | ErrInvalidHex
  | ErrSyntax
  | ErrRange
  | ErrDriver

text \<open>
  Go's \<^verbatim>\<open>int\<close> and \<^verbatim>\<open>int64\<close> have 64 bits: a sum or product that leaves the range
  wraps around (\<open>wrap64\<close>), and \<^verbatim>\<open>/\<close> rounds towards zero (\<open>quo\<close>).
\<close>

definition wrap64 :: "int \<Rightarrow> int" where
  "wrap64 x = (x + 2 ^ 63) mod 2 ^ 64 - 2 ^ 63"

definition quo :: "int \<Rightarrow> int \<Rightarrow> int" where
  "quo a b = sgn a * sgn b * (\<bar>a\<bar> div \<bar>b\<bar>)"

section \<open>Package jwt\<close>

text \<open>
  The claims of a token: the four identity fields and the three dates of
  \<^verbatim>\<open>jwt.RegisteredClaims\<close> that \<^verbatim>\<open>GenerateToken\<close> sets (issuer, subject, audience and
  token id stay empty and are not checked).

  A token string is either the compact serialisation of claims with a signature
  (\<open>Compact\<close>) or a string that does not parse (\<open>Malformed\<close>). The HS256 signature is the
  parameter \<open>hs256\<close>, from key and claims to the signature, \<open>None\<close> when signing
  returns an error. Nothing is assumed about it.

  The model covers the tokens that \<^verbatim>\<open>GenerateToken\<close> writes: the header names HS256, and
  a numeric identity is a key of the users table, kept as the number it is. Two things
  the library does beyond that are left out. The key function of \<^verbatim>\<open>ValidateToken\<close> does
  not look at the algorithm of the header, so a token signed with HS384 or HS512 under
  the same secret is accepted as well. And a numeric identity is decoded into a
  \<^verbatim>\<open>float64\<close>, which returns keys below \<open>2\<^sup>5\<^sup>3\<close> as they are and rounds larger ones.
\<close>

record Claims =
  UserID :: iface
  Email :: string
  Username :: string
  Role :: string
  ExpiresAt :: "time option"
  IssuedAt :: "time option"
  NotBefore :: "time option"

datatype TokenString = Compact Claims string | Malformed

type_synonym signer = "string \<Rightarrow> Claims \<Rightarrow> string option"

record Token =
  TClaims :: Claims
  Valid :: bool

definition GenerateToken ::
  "signer \<Rightarrow> (nat \<Rightarrow> time) \<Rightarrow> string \<Rightarrow> iface \<Rightarrow> string \<Rightarrow> string \<Rightarrow> string
     \<Rightarrow> error + (TokenString \<times> time)" where
  "GenerateToken hs256 clock secret userID email username role =
     (let expirationTime = clock 0 + 24 * Hour;
          claims = \<lparr>Claims.UserID = userID, Claims.Email = email,
                    Claims.Username = username, Claims.Role = role,
                    Claims.ExpiresAt = Some expirationTime,
                    Claims.IssuedAt = Some (clock 1),
                    Claims.NotBefore = Some (clock 2)\<rparr>
      in case hs256 secret claims of
           None \<Rightarrow> Inl ErrSigning
         | Some tokenString \<Rightarrow> Inr (Compact claims tokenString, expirationTime))"

text \<open>
  \<^verbatim>\<open>jwt.ParseWithClaims\<close> (version 5, no parser options): the signature is recomputed
  with the key of the key function, then the validator requires \<open>now < exp\<close> and
  \<open>nbf \<le> now\<close> for the dates that are present; the issue date is not checked.
\<close>

definition ParseWithClaims :: "signer \<Rightarrow> time \<Rightarrow> TokenString \<Rightarrow> string \<Rightarrow> error + Token" where
  "ParseWithClaims hs256 now tokenString key =
     (case tokenString of
        Malformed \<Rightarrow> Inl ErrTokenMalformed
      | Compact claims signature \<Rightarrow>
          if hs256 key claims \<noteq> Some signature then Inl ErrTokenSignatureInvalid
          else if (case Claims.ExpiresAt claims of None \<Rightarrow> False | Some exp \<Rightarrow> \<not> now < exp)
            then Inl ErrTokenExpired
          else if (case Claims.NotBefore claims of None \<Rightarrow> False | Some nbf \<Rightarrow> now < nbf)
            then Inl ErrTokenNotValidYet
          else Inr \<lparr>TClaims = claims, Valid = True\<rparr>)"

definition ValidateToken :: "signer \<Rightarrow> time \<Rightarrow> string \<Rightarrow> TokenString \<Rightarrow> error + Claims" where
  "ValidateToken hs256 now secret tokenString =
     (case ParseWithClaims hs256 now tokenString secret of
        Inl err \<Rightarrow> Inl err
      | Inr token \<Rightarrow> if Valid token then Inr (TClaims token) else Inl ErrSignatureInvalid)"

section \<open>Package models\<close>

text \<open>
  The structs of \<^verbatim>\<open>models\<close>, field by field. Several structs share field names, so
  fields are written with their record's name (\<open>User.Email\<close>, \<open>UserMongo.Email\<close>).
  The password column holds a bcrypt hash, kept as \<^verbatim>\<open>newFromHash\<close> reads it: cost, salt
  and digest, or \<open>NotAHash\<close> for a string it rejects. An ObjectID is kept as its 24
  lower-case hexadecimal digits.
\<close>

datatype hashed = Hashed nat string string | NotAHash

type_synonym ObjectID = string

record User =
  ID :: nat
  Email :: string
  Username :: string
  Password :: hashed
  FirstName :: string
  LastName :: string
  Role :: string
  IsActive :: bool
  CreatedAt :: time
  UpdatedAt :: time
  DeletedAt :: "time option"

record UserMongo =
  ID :: ObjectID
  Email :: string
  Username :: string
  Password :: hashed
  FirstName :: string
  LastName :: string
  Role :: string
  IsActive :: bool
  CreatedAt :: time
  UpdatedAt :: time

record LoginRequest =
  Email :: string
  Password :: string

record RegisterRequest =
  Email :: string
  Username :: string
  Password :: string
  FirstName :: string
  LastName :: string

record UpdateUserRequest =
  FirstName :: string
  LastName :: string
  Email :: string

record UserInfo =
  ID :: iface
  Email :: string
  Username :: string
  FirstName :: string
  LastName :: string
  Role :: string
  IsActive :: bool
  CreatedAt :: time
  UpdatedAt :: time

record AuthResponse =
  Token :: TokenString
  User :: UserInfo
  ExpiresAt :: time

record PaginationQuery =
  Page :: int
  PageSize :: int
  Sort :: string
  Search :: string

record Pagination =
  Page :: int
  PageSize :: int
  Total :: int
  TotalPage :: int

record PaginatedResponse =
  Data :: "UserInfo list"
  Pagination :: Pagination

record HealthResponse =
  Status :: string
  Timestamp :: time
  Services :: "string \<rightharpoonup> string"
  Version :: string

text \<open>
  \<^verbatim>\<open>APIResponse.Data\<close> is an \<^verbatim>\<open>interface{}\<close>; the handlers put one of four structs
  there, or leave it empty.
\<close>

datatype payload =
    AuthData AuthResponse
  | UserData UserInfo
  | PageData PaginatedResponse
  | HealthData HealthResponse

record APIResponse =
  Success :: bool
  Message :: string
  Data :: "payload option"
  Error :: string

section \<open>Package utils\<close>

subsection \<open>Localizer\<close>

record Localizer =
  DefaultLanguage :: string
  translations' :: "string \<rightharpoonup> (string \<rightharpoonup> string)"

definition Get :: "Localizer \<Rightarrow> string \<Rightarrow> string \<Rightarrow> string" where
  "Get l lang key =
     (case (case translations' l lang of None \<Rightarrow> None | Some table \<Rightarrow> table key) of
        Some text \<Rightarrow> text
      | None \<Rightarrow>
          (case (case translations' l (DefaultLanguage l) of
                   None \<Rightarrow> None
                 | Some table \<Rightarrow> table key) of
             Some text \<Rightarrow> text
           | None \<Rightarrow> key))"

subsection \<open>ResponseUtils\<close>

definition SuccessResponse :: "string \<Rightarrow> payload \<Rightarrow> APIResponse" where
  "SuccessResponse message d =
     \<lparr>APIResponse.Success = True, APIResponse.Message = message,
      APIResponse.Data = Some d, APIResponse.Error = []\<rparr>"

definition ErrorResponse :: "string \<Rightarrow> string \<Rightarrow> APIResponse" where
  "ErrorResponse message err =
     \<lparr>APIResponse.Success = False, APIResponse.Message = message,
      APIResponse.Data = None, APIResponse.Error = err\<rparr>"

definition PaginatedResponse :: "UserInfo list \<Rightarrow> Pagination \<Rightarrow> PaginatedResponse" where
  "PaginatedResponse d pagination =
     \<lparr>PaginatedResponse.Data = d, PaginatedResponse.Pagination = pagination\<rparr>"

subsection \<open>PasswordUtils\<close>

text \<open>
  \<^verbatim>\<open>HashPassword\<close> and \<^verbatim>\<open>VerifyPassword\<close> are one-line wrappers of
  \<^verbatim>\<open>bcrypt.GenerateFromPassword\<close> and \<^verbatim>\<open>bcrypt.CompareHashAndPassword\<close>.
  The library is modelled as far as its documented behaviour goes:
  \<^item> \<^verbatim>\<open>GenerateFromPassword\<close> refuses a password of more than 72 bytes and fails when
    no salt can be drawn from \<^verbatim>\<open>crypto/rand\<close> (the draw is the argument \<open>rand\<close>);
  \<^item> the Blowfish key schedule reads 72 bytes of the password followed by a NUL byte,
    starting over at the first byte when it reaches the end (\<open>bcrypt_key\<close>);
  \<^item> the cipher itself is the parameter \<open>eks\<close>, from cost, salt and these 72 bytes to
    the digest. Nothing is assumed about it.
\<close>

type_synonym eksblowfish = "nat \<Rightarrow> string \<Rightarrow> string \<Rightarrow> string"

definition DefaultCost :: nat where
  "DefaultCost = 10"

definition bcrypt_key :: "string \<Rightarrow> string" where
  "bcrypt_key password = take 72 (concat (replicate 72 (password @ [CHR 0x00])))"

definition bcrypt :: "eksblowfish \<Rightarrow> string \<Rightarrow> nat \<Rightarrow> string \<Rightarrow> string" where
  "bcrypt eks password cost salt = eks cost salt (bcrypt_key password)"

definition GenerateFromPassword ::
  "eksblowfish \<Rightarrow> string option \<Rightarrow> string \<Rightarrow> nat \<Rightarrow> error + hashed" where
  "GenerateFromPassword eks rand password cost =
     (if length password > 72 then Inl ErrPasswordTooLong
      else case rand of
             None \<Rightarrow> Inl ErrEntropy
           | Some salt \<Rightarrow> Inr (Hashed cost salt (bcrypt eks password cost salt)))"

definition CompareHashAndPassword :: "eksblowfish \<Rightarrow> hashed \<Rightarrow> string \<Rightarrow> error option" where
  "CompareHashAndPassword eks hashedPassword password =
     (case hashedPassword of
        NotAHash \<Rightarrow> Some ErrHashMalformed
      | Hashed cost salt digest \<Rightarrow>
          if bcrypt eks password cost salt = digest then None
          else Some ErrMismatchedHashAndPassword)"

definition HashPassword :: "eksblowfish \<Rightarrow> string option \<Rightarrow> string \<Rightarrow> error + hashed" where
  "HashPassword eks rand password =
     (case GenerateFromPassword eks rand password DefaultCost of
        Inl err \<Rightarrow> Inl err
      | Inr hashedPassword \<Rightarrow> Inr hashedPassword)"

definition VerifyPassword :: "eksblowfish \<Rightarrow> hashed \<Rightarrow> string \<Rightarrow> error option" where
  "VerifyPassword eks hashedPassword password =
     CompareHashAndPassword eks hashedPassword password"

section \<open>What lies outside the program\<close>

text \<open>
  The cryptographic primitives and the query language of the relational server are
  parameters of the model (\<open>Lib\<close>): the HS256 signature, the Blowfish cipher of bcrypt,
  the \<^verbatim>\<open>ILIKE\<close> match of a pattern, the case-insensitive match of a regular expression,
  and the ordering of rows by an \<^verbatim>\<open>ORDER BY\<close> expression (\<open>None\<close> when the server
  rejects the expression).

  What changes from one request to the next is the environment of the request (\<open>Env\<close>):
  the clock, the salt drawn for a new hash (\<open>None\<close> when the draw fails), whether the
  \<open>k\<close>-th call to the database of this request ends in an error of the driver or
  the server (\<open>dberr\<close>), the ObjectID the driver generates for a new document, and the
  outcome of the connectivity checks.
\<close>

record Lib =
  hs256 :: signer
  eks :: eksblowfish
  ilike :: "string \<Rightarrow> string \<Rightarrow> bool"
  regex :: "string \<Rightarrow> string \<Rightarrow> bool"
  order_by :: "string \<Rightarrow> User list \<Rightarrow> User list option"

record Env =
  clock :: "nat \<Rightarrow> time"
  rand :: "string option"
  dberr :: "nat \<Rightarrow> bool"
  newObjectID :: ObjectID
  sqlDBErr :: bool
  sqlPingErr :: bool
  mongoPingErr :: bool

section \<open>Package database\<close>

text \<open>
  A connection is modelled by the data it gives access to: the rows of the users table
  in primary-key order (\<^verbatim>\<open>PostgresDB\<close>), the documents of the users collection in
  their natural order (\<^verbatim>\<open>MongoDB\<close>).
\<close>

type_synonym PostgresDB = "User list"

type_synonym MongoDB = "UserMongo list"

definition MongoDB_HealthCheck :: "Env \<Rightarrow> error option" where
  "MongoDB_HealthCheck env = (if mongoPingErr env then Some ErrDriver else None)"

definition PostgresDB_HealthCheck :: "Env \<Rightarrow> error option" where
  "PostgresDB_HealthCheck env =
     (if sqlDBErr env then Some ErrDriver
      else if sqlPingErr env then Some ErrDriver
      else None)"

subsection \<open>The GORM calls of the handlers\<close>

text \<open>
  \<^verbatim>\<open>User\<close> has a \<^verbatim>\<open>gorm.DeletedAt\<close> field, so every query sees only the rows whose
  deletion time is null. \<^verbatim>\<open>First\<close> returns the matching row of least primary key.
  \<^verbatim>\<open>Create\<close> lets the serial column assign the key. \<^verbatim>\<open>Save\<close> updates every column of
  the row with the key of its argument (it also stamps the update time itself, right
  after the handler did; the model keeps the handler's reading of the clock). An offset
  that is not positive adds no \<^verbatim>\<open>OFFSET\<close> clause, a negative limit no \<^verbatim>\<open>LIMIT\<close>
  clause. Whether the server rejects a write, for a uniqueness constraint or any other
  reason, is the environment's \<open>dberr\<close>.
\<close>

definition visible :: "User \<Rightarrow> bool" where
  "visible u = (User.DeletedAt u = None)"

definition pg_First :: "bool \<Rightarrow> (User \<Rightarrow> bool) \<Rightarrow> PostgresDB \<Rightarrow> error + User" where
  "pg_First fails cond rows =
     (if fails then Inl ErrDriver
      else case find (\<lambda>u. visible u \<and> cond u) rows of
             None \<Rightarrow> Inl ErrRecordNotFound
           | Some u \<Rightarrow> Inr u)"

definition next_serial :: "PostgresDB \<Rightarrow> nat" where
  "next_serial rows = Suc (fold max (map User.ID rows) 0)"

definition pg_Create :: "bool \<Rightarrow> User \<Rightarrow> PostgresDB \<Rightarrow> error + (User \<times> PostgresDB)" where
  "pg_Create fails user rows =
     (if fails then Inl ErrDriver
      else let created = user\<lparr>User.ID := next_serial rows\<rparr>
           in Inr (created, rows @ [created]))"

definition pg_Save :: "bool \<Rightarrow> User \<Rightarrow> PostgresDB \<Rightarrow> error + PostgresDB" where
  "pg_Save fails user rows =
     (if fails then Inl ErrDriver
      else Inr (map (\<lambda>r. if User.ID r = User.ID user \<and> visible r then user else r) rows))"

definition pg_Offset :: "int \<Rightarrow> 'a list \<Rightarrow> 'a list" where
  "pg_Offset n xs = (if 0 < n then drop (nat n) xs else xs)"

definition pg_Limit :: "int \<Rightarrow> 'a list \<Rightarrow> 'a list" where
  "pg_Limit n xs = (if 0 \<le> n then take (nat n) xs else xs)"

definition pg_Find ::
  "bool \<Rightarrow> (User list \<Rightarrow> User list option) \<Rightarrow> int \<Rightarrow> int \<Rightarrow> User list \<Rightarrow> error + User list" where
  "pg_Find fails sorter offset limit selected =
     (if fails then Inl ErrDriver
      else case sorter selected of
             None \<Rightarrow> Inl ErrDriver
           | Some ordered \<Rightarrow> Inr (pg_Limit limit (pg_Offset offset ordered)))"

subsection \<open>The calls of the handlers to the mongo driver\<close>

text \<open>
  \<^verbatim>\<open>FindOne\<close> returns the first matching document. \<^verbatim>\<open>InsertOne\<close> stores the document
  under the ObjectID the driver generates (the struct's own is empty and omitted) and
  is refused when that identifier is taken. \<^verbatim>\<open>UpdateOne\<close> changes the first matching
  document and is no error when there is none. \<^verbatim>\<open>Find\<close> is refused for a negative
  skip; a limit of zero is no limit, a negative limit counts as its absolute value.
\<close>

definition mongo_FindOne :: "bool \<Rightarrow> (UserMongo \<Rightarrow> bool) \<Rightarrow> MongoDB \<Rightarrow> error + UserMongo" where
  "mongo_FindOne fails flt docs =
     (if fails then Inl ErrDriver
      else case find flt docs of
             None \<Rightarrow> Inl ErrNoDocuments
           | Some d \<Rightarrow> Inr d)"

definition mongo_InsertOne ::
  "bool \<Rightarrow> ObjectID \<Rightarrow> UserMongo \<Rightarrow> MongoDB \<Rightarrow> error + (ObjectID \<times> MongoDB)" where
  "mongo_InsertOne fails oid doc docs =
     (if fails \<or> oid \<in> set (map UserMongo.ID docs) then Inl ErrDriver
      else Inr (oid, docs @ [doc\<lparr>UserMongo.ID := oid\<rparr>]))"

fun update_first :: "('a \<Rightarrow> bool) \<Rightarrow> ('a \<Rightarrow> 'a) \<Rightarrow> 'a list \<Rightarrow> 'a list" where
  "update_first flt f [] = []"
| "update_first flt f (x # xs) = (if flt x then f x # xs else x # update_first flt f xs)"

text \<open>The \<^verbatim>\<open>$set\<close> document of an update: the fields it names, with their new values.\<close>

datatype assignment =
    Set_updated_at time
  | Set_first_name string
  | Set_last_name string
  | Set_email string

fun assign :: "assignment \<Rightarrow> UserMongo \<Rightarrow> UserMongo" where
  "assign (Set_updated_at t) d = d\<lparr>UserMongo.UpdatedAt := t\<rparr>"
| "assign (Set_first_name v) d = d\<lparr>UserMongo.FirstName := v\<rparr>"
| "assign (Set_last_name v) d = d\<lparr>UserMongo.LastName := v\<rparr>"
| "assign (Set_email v) d = d\<lparr>UserMongo.Email := v\<rparr>"

definition mongo_UpdateOne ::
  "bool \<Rightarrow> (UserMongo \<Rightarrow> bool) \<Rightarrow> assignment list \<Rightarrow> MongoDB \<Rightarrow> error + MongoDB" where
  "mongo_UpdateOne fails flt update docs =
     (if fails then Inl ErrDriver
      else Inr (update_first flt (\<lambda>d. fold assign update d) docs))"

definition mongo_CountDocuments :: "bool \<Rightarrow> (UserMongo \<Rightarrow> bool) \<Rightarrow> MongoDB \<Rightarrow> error + int" where
  "mongo_CountDocuments fails flt docs =
     (if fails then Inl ErrDriver else Inr (int (length (filter flt docs))))"

definition mongo_Limit :: "int \<Rightarrow> 'a list \<Rightarrow> 'a list" where
  "mongo_Limit n xs = (if n = 0 then xs else take (nat \<bar>n\<bar>) xs)"

definition mongo_Find ::
  "bool \<Rightarrow> (UserMongo \<Rightarrow> bool) \<Rightarrow> int \<Rightarrow> int \<Rightarrow> MongoDB \<Rightarrow> error + UserMongo list" where
  "mongo_Find fails flt skip limit docs =
     (if fails \<or> skip < 0 then Inl ErrDriver
      else Inr (mongo_Limit limit (drop (nat skip) (filter flt docs))))"

definition cursor_All :: "bool \<Rightarrow> UserMongo list \<Rightarrow> error + UserMongo list" where
  "cursor_All fails cursor = (if fails then Inl ErrDriver else Inr cursor)"

section \<open>Library calls on strings\<close>

text \<open>
  \<^verbatim>\<open>strconv.ParseUint(s, 10, bitSize)\<close>: the value of a non-empty string of decimal
  digits; 0 with a syntax error for any other string; the largest value of the size
  with a range error when the number does not fit.
\<close>

definition is_digit :: "char \<Rightarrow> bool" where
  "is_digit c = (48 \<le> (of_char c :: nat) \<and> (of_char c :: nat) \<le> 57)"

definition decimal :: "string \<Rightarrow> nat" where
  "decimal s = foldl (\<lambda>n c. 10 * n + ((of_char c :: nat) - 48)) 0 s"

definition ParseUint :: "string \<Rightarrow> nat \<Rightarrow> nat \<times> error option" where
  "ParseUint s bitSize =
     (if s = [] \<or> \<not> list_all is_digit s then (0, Some ErrSyntax)
      else if 2 ^ bitSize \<le> decimal s then (2 ^ bitSize - 1, Some ErrRange)
      else (decimal s, None))"

text \<open>
  \<^verbatim>\<open>primitive.ObjectIDFromHex\<close> accepts exactly the strings of 24 hexadecimal digits, in
  either case; \<^verbatim>\<open>Hex\<close> writes the identifier in lower case.
\<close>

definition is_hex :: "char \<Rightarrow> bool" where
  "is_hex c =
     (let n = (of_char c :: nat)
      in (48 \<le> n \<and> n \<le> 57) \<or> (97 \<le> n \<and> n \<le> 102) \<or> (65 \<le> n \<and> n \<le> 70))"

definition lower_hex :: "char \<Rightarrow> char" where
  "lower_hex c =
     (let n = (of_char c :: nat)
      in if 65 \<le> n \<and> n \<le> 70 then char_of (n + 32) else c)"

definition ObjectIDFromHex :: "string \<Rightarrow> error + ObjectID" where
  "ObjectIDFromHex s =
     (if length s \<noteq> 24 then Inl ErrInvalidHex
      else if list_all is_hex s then Inr (map lower_hex s)
      else Inl ErrInvalidHex)"

definition Hex :: "ObjectID \<Rightarrow> string" where
  "Hex oid = oid"

section \<open>The gin context\<close>

text \<open>
  The keys a middleware has set, with their values. \<^verbatim>\<open>GetString\<close> returns the value of
  a key when it is a string, and the empty string when the key is absent or holds a
  value of another type. \<^verbatim>\<open>ShouldBindJSON\<close> and \<^verbatim>\<open>ShouldBindQuery\<close> either return an
  error or fill the request struct, which then satisfies its binding tags. A handler
  writes at most one JSON response (\<open>JSON\<close>), may write none (\<open>NoReply\<close>), and a
  division by zero panics (\<open>Panic\<close>).
\<close>

type_synonym Context = "string \<rightharpoonup> iface"

definition GetString :: "Context \<Rightarrow> string \<Rightarrow> string" where
  "GetString c key = (case c key of Some (IStr s) \<Rightarrow> s | _ \<Rightarrow> [])"

datatype 'a binding = BindError string | Bound 'a

datatype Reply = NoReply | JSON nat APIResponse | Panic

abbreviation StatusOK :: nat where "StatusOK \<equiv> 200"
abbreviation StatusCreated :: nat where "StatusCreated \<equiv> 201"
abbreviation StatusBadRequest :: nat where "StatusBadRequest \<equiv> 400"
abbreviation StatusUnauthorized :: nat where "StatusUnauthorized \<equiv> 401"
abbreviation StatusNotFound :: nat where "StatusNotFound \<equiv> 404"
abbreviation StatusConflict :: nat where "StatusConflict \<equiv> 409"
abbreviation StatusInternalServerError :: nat where "StatusInternalServerError \<equiv> 500"
abbreviation StatusServiceUnavailable :: nat where "StatusServiceUnavailable \<equiv> 503"

section \<open>Package middleware\<close>

text \<open>
  The \<^verbatim>\<open>Authorization\<close> header is absent or empty (\<open>NoHeader\<close>), the word
  \<^verbatim>\<open>Bearer\<close>, a space and a token string (\<open>Bearer\<close>), or any other text (\<open>OtherScheme\<close>).
  The middleware either aborts the request with a response or passes the context on
  with the claims of the token.
\<close>

datatype Authorization = NoHeader | Bearer TokenString | OtherScheme string

datatype Passed = Abort nat APIResponse | Next Context

definition JWTAuth :: "signer \<Rightarrow> time \<Rightarrow> string \<Rightarrow> Authorization \<Rightarrow> Context \<Rightarrow> Passed" where
  "JWTAuth sign now JWTSecret authHeader c =
     (case authHeader of
        NoHeader \<Rightarrow>
          Abort StatusUnauthorized
            \<lparr>APIResponse.Success = False,
             APIResponse.Message = ''Authorization header required'',
             APIResponse.Data = None,
             APIResponse.Error = ''No authorization header provided''\<rparr>
      | OtherScheme text \<Rightarrow>
          Abort StatusUnauthorized
            \<lparr>APIResponse.Success = False,
             APIResponse.Message = ''Invalid authorization header format'',
             APIResponse.Data = None,
             APIResponse.Error =
               ''Authorization header must start with 'Bearer '' @ [CHR 0x27]\<rparr>
      | Bearer tokenString \<Rightarrow>
          (case ValidateToken sign now JWTSecret tokenString of
             Inl err \<Rightarrow>
               Abort StatusUnauthorized
                 \<lparr>APIResponse.Success = False,
                  APIResponse.Message = ''Invalid or expired token'',
                  APIResponse.Data = None,
                  APIResponse.Error = ''Authentication failed''\<rparr>
           | Inr claims \<Rightarrow>
               Next (c(''user_id'' \<mapsto> Claims.UserID claims,
                       ''user_email'' \<mapsto> IStr (Claims.Email claims),
                       ''user_username'' \<mapsto> IStr (Claims.Username claims),
                       ''user_role'' \<mapsto> IStr (Claims.Role claims)))))"

section \<open>Package handlers\<close>

text \<open>
  \<^verbatim>\<open>AuthHandler\<close>, \<^verbatim>\<open>UserHandler\<close> and \<^verbatim>\<open>HealthHandler\<close> hold the same two connections,
  each a pointer that is nil (\<open>None\<close>) when its backend is not configured, the
  localizer, and the secret of \<^verbatim>\<open>jwtUtils\<close>. A handler that writes to a backend returns
  the handler with the new contents of that backend.
\<close>

record Handler =
  mongoDB :: "MongoDB option"
  postgresDB :: "PostgresDB option"
  localizer :: Localizer
  Secret :: string

definition userInfo :: "User \<Rightarrow> UserInfo" where
  "userInfo user =
     \<lparr>UserInfo.ID = INum (User.ID user), UserInfo.Email = User.Email user,
      UserInfo.Username = User.Username user, UserInfo.FirstName = User.FirstName user,
      UserInfo.LastName = User.LastName user, UserInfo.Role = User.Role user,
      UserInfo.IsActive = User.IsActive user, UserInfo.CreatedAt = User.CreatedAt user,
      UserInfo.UpdatedAt = User.UpdatedAt user\<rparr>"

definition userInfoMongo :: "UserMongo \<Rightarrow> UserInfo" where
  "userInfoMongo user =
     \<lparr>UserInfo.ID = IStr (Hex (UserMongo.ID user)), UserInfo.Email = UserMongo.Email user,
      UserInfo.Username = UserMongo.Username user,
      UserInfo.FirstName = UserMongo.FirstName user,
      UserInfo.LastName = UserMongo.LastName user, UserInfo.Role = UserMongo.Role user,
      UserInfo.IsActive = UserMongo.IsActive user,
      UserInfo.CreatedAt = UserMongo.CreatedAt user,
      UserInfo.UpdatedAt = UserMongo.UpdatedAt user\<rparr>"

subsection \<open>Register\<close>

definition Register_postgres ::
  "Lib \<Rightarrow> Env \<Rightarrow> Handler \<Rightarrow> string \<Rightarrow> RegisterRequest \<Rightarrow> hashed \<Rightarrow> PostgresDB
     \<Rightarrow> Handler \<times> Reply" where
  "Register_postgres lib env h lang req hashedPassword rows =
     (let user =
            \<lparr>User.ID = 0, User.Email = RegisterRequest.Email req,
             User.Username = RegisterRequest.Username req, User.Password = hashedPassword,
             User.FirstName = RegisterRequest.FirstName req,
             User.LastName = RegisterRequest.LastName req, User.Role = ''user'',
             User.IsActive = True, User.CreatedAt = clock env 0,
             User.UpdatedAt = clock env 1, User.DeletedAt = None\<rparr>
      in case pg_First (dberr env 0)
                (\<lambda>u. User.Email u = RegisterRequest.Email req \<or>
                      User.Username u = RegisterRequest.Username req) rows of
           Inr existingUser \<Rightarrow>
             (h, JSON StatusConflict
                   (ErrorResponse (Get (localizer h) lang ''email_exists'')
                      ''User already exists''))
         | Inl err \<Rightarrow>
             (case pg_Create (dberr env 1) user rows of
                Inl err \<Rightarrow>
                  (h, JSON StatusInternalServerError
                        (ErrorResponse (Get (localizer h) lang ''internal_error'')
                           ''Failed to create user''))
              | Inr (created, rows') \<Rightarrow>
                  (case GenerateToken (hs256 lib) (\<lambda>k. clock env (k + 2)) (Secret h)
                          (INum (User.ID created)) (User.Email created)
                          (User.Username created) (User.Role created) of
                     Inl err \<Rightarrow>
                       (h\<lparr>postgresDB := Some rows'\<rparr>,
                        JSON StatusInternalServerError
                          (ErrorResponse (Get (localizer h) lang ''internal_error'')
                             ''Failed to generate token''))
                   | Inr (token, expiresAt) \<Rightarrow>
                       (h\<lparr>postgresDB := Some rows'\<rparr>,
                        JSON StatusCreated
                          (SuccessResponse (Get (localizer h) lang ''user_created'')
                             (AuthData \<lparr>AuthResponse.Token = token,
                                         AuthResponse.User = userInfo created,
                                         AuthResponse.ExpiresAt = expiresAt\<rparr>))))))"

definition Register_mongo ::
  "Lib \<Rightarrow> Env \<Rightarrow> Handler \<Rightarrow> string \<Rightarrow> RegisterRequest \<Rightarrow> hashed \<Rightarrow> MongoDB
     \<Rightarrow> Handler \<times> Reply" where
  "Register_mongo lib env h lang req hashedPassword docs =
     (let userMongo =
            \<lparr>UserMongo.ID = [], UserMongo.Email = RegisterRequest.Email req,
             UserMongo.Username = RegisterRequest.Username req,
             UserMongo.Password = hashedPassword,
             UserMongo.FirstName = RegisterRequest.FirstName req,
             UserMongo.LastName = RegisterRequest.LastName req, UserMongo.Role = ''user'',
             UserMongo.IsActive = True, UserMongo.CreatedAt = clock env 0,
             UserMongo.UpdatedAt = clock env 1\<rparr>
      in case mongo_FindOne (dberr env 0)
                (\<lambda>d. UserMongo.Email d = RegisterRequest.Email req \<or>
                      UserMongo.Username d = RegisterRequest.Username req) docs of
           Inr existingUser \<Rightarrow>
             (h, JSON StatusConflict
                   (ErrorResponse (Get (localizer h) lang ''email_exists'')
                      ''User already exists''))
         | Inl err \<Rightarrow>
             (case mongo_InsertOne (dberr env 1) (newObjectID env) userMongo docs of
                Inl err \<Rightarrow>
                  (h, JSON StatusInternalServerError
                        (ErrorResponse (Get (localizer h) lang ''internal_error'')
                           ''Failed to create user''))
              | Inr (insertedID, docs') \<Rightarrow>
                  (let created = userMongo\<lparr>UserMongo.ID := insertedID\<rparr>
                   in case GenerateToken (hs256 lib) (\<lambda>k. clock env (k + 2)) (Secret h)
                             (IStr (Hex (UserMongo.ID created))) (UserMongo.Email created)
                             (UserMongo.Username created) (UserMongo.Role created) of
                        Inl err \<Rightarrow>
                          (h\<lparr>mongoDB := Some docs'\<rparr>,
                           JSON StatusInternalServerError
                             (ErrorResponse (Get (localizer h) lang ''internal_error'')
                                ''Failed to generate token''))
                      | Inr (token, expiresAt) \<Rightarrow>
                          (h\<lparr>mongoDB := Some docs'\<rparr>,
                           JSON StatusCreated
                             (SuccessResponse (Get (localizer h) lang ''user_created'')
                                (AuthData \<lparr>AuthResponse.Token = token,
                                            AuthResponse.User = userInfoMongo created,
                                            AuthResponse.ExpiresAt = expiresAt\<rparr>))))))"

definition Register ::
  "Lib \<Rightarrow> Env \<Rightarrow> Handler \<Rightarrow> Context \<Rightarrow> RegisterRequest binding \<Rightarrow> Handler \<times> Reply" where
  "Register lib env h c body =
     (let lang = GetString c ''language''
      in case body of
           BindError err \<Rightarrow>
             (h, JSON StatusBadRequest
                   (ErrorResponse (Get (localizer h) lang ''validation_error'') err))
         | Bound req \<Rightarrow>
             (case HashPassword (eks lib) (rand env) (RegisterRequest.Password req) of
                Inl err \<Rightarrow>
                  (h, JSON StatusInternalServerError
                        (ErrorResponse (Get (localizer h) lang ''internal_error'')
                           ''Failed to process password''))
              | Inr hashedPassword \<Rightarrow>
                  (case postgresDB h of
                     Some rows \<Rightarrow> Register_postgres lib env h lang req hashedPassword rows
                   | None \<Rightarrow>
                       (case mongoDB h of
                          Some docs \<Rightarrow> Register_mongo lib env h lang req hashedPassword docs
                        | None \<Rightarrow> (h, NoReply)))))"

subsection \<open>Login\<close>

definition Login_postgres ::
  "Lib \<Rightarrow> Env \<Rightarrow> Handler \<Rightarrow> string \<Rightarrow> LoginRequest \<Rightarrow> PostgresDB \<Rightarrow> Reply" where
  "Login_postgres lib env h lang req rows =
     (case pg_First (dberr env 0) (\<lambda>u. User.Email u = LoginRequest.Email req) rows of
        Inl err \<Rightarrow>
          JSON StatusUnauthorized
            (ErrorResponse (Get (localizer h) lang ''invalid_credentials'')
               ''Authentication failed'')
      | Inr user \<Rightarrow>
          (case VerifyPassword (eks lib) (User.Password user) (LoginRequest.Password req) of
             Some err \<Rightarrow>
               JSON StatusUnauthorized
                 (ErrorResponse (Get (localizer h) lang ''invalid_credentials'')
                    ''Authentication failed'')
           | None \<Rightarrow>
               (case GenerateToken (hs256 lib) (clock env) (Secret h) (INum (User.ID user))
                       (User.Email user) (User.Username user) (User.Role user) of
                  Inl err \<Rightarrow>
                    JSON StatusInternalServerError
                      (ErrorResponse (Get (localizer h) lang ''internal_error'')
                         ''Failed to generate token'')
                | Inr (token, expiresAt) \<Rightarrow>
                    JSON StatusOK
                      (SuccessResponse (Get (localizer h) lang ''login_successful'')
                         (AuthData \<lparr>AuthResponse.Token = token,
                                     AuthResponse.User = userInfo user,
                                     AuthResponse.ExpiresAt = expiresAt\<rparr>)))))"

definition Login_mongo ::
  "Lib \<Rightarrow> Env \<Rightarrow> Handler \<Rightarrow> string \<Rightarrow> LoginRequest \<Rightarrow> MongoDB \<Rightarrow> Reply" where
  "Login_mongo lib env h lang req docs =
     (case mongo_FindOne (dberr env 0) (\<lambda>d. UserMongo.Email d = LoginRequest.Email req)
             docs of
        Inl err \<Rightarrow>
          JSON StatusUnauthorized
            (ErrorResponse (Get (localizer h) lang ''invalid_credentials'')
               ''Authentication failed'')
      | Inr user \<Rightarrow>
          (case VerifyPassword (eks lib) (UserMongo.Password user)
                  (LoginRequest.Password req) of
             Some err \<Rightarrow>
               JSON StatusUnauthorized
                 (ErrorResponse (Get (localizer h) lang ''invalid_credentials'')
                    ''Authentication failed'')
           | None \<Rightarrow>
               (case GenerateToken (hs256 lib) (clock env) (Secret h)
                       (IStr (Hex (UserMongo.ID user))) (UserMongo.Email user)
                       (UserMongo.Username user) (UserMongo.Role user) of
                  Inl err \<Rightarrow>
                    JSON StatusInternalServerError
                      (ErrorResponse (Get (localizer h) lang ''internal_error'')
                         ''Failed to generate token'')
                | Inr (token, expiresAt) \<Rightarrow>
                    JSON StatusOK
                      (SuccessResponse (Get (localizer h) lang ''login_successful'')
                         (AuthData \<lparr>AuthResponse.Token = token,
                                     AuthResponse.User = userInfoMongo user,
                                     AuthResponse.ExpiresAt = expiresAt\<rparr>)))))"

definition Login :: "Lib \<Rightarrow> Env \<Rightarrow> Handler \<Rightarrow> Context \<Rightarrow> LoginRequest binding \<Rightarrow> Reply" where
  "Login lib env h c body =
     (let lang = GetString c ''language''
      in case body of
           BindError err \<Rightarrow>
             JSON StatusBadRequest
               (ErrorResponse (Get (localizer h) lang ''validation_error'') err)
         | Bound req \<Rightarrow>
             (case postgresDB h of
                Some rows \<Rightarrow> Login_postgres lib env h lang req rows
              | None \<Rightarrow>
                  (case mongoDB h of
                     Some docs \<Rightarrow> Login_mongo lib env h lang req docs
                   | None \<Rightarrow> NoReply)))"

subsection \<open>GetProfile\<close>

definition GetProfile :: "Env \<Rightarrow> Handler \<Rightarrow> Context \<Rightarrow> Reply" where
  "GetProfile env h c =
     (let userID = GetString c ''user_id'';
          lang = GetString c ''language''
      in case postgresDB h of
           Some rows \<Rightarrow>
             (let id = fst (ParseUint userID 32)
              in case pg_First (dberr env 0) (\<lambda>u. User.ID u = id) rows of
                   Inl err \<Rightarrow>
                     JSON StatusNotFound
                       (ErrorResponse (Get (localizer h) lang ''user_not_found'')
                          ''User not found'')
                 | Inr user \<Rightarrow>
                     JSON StatusOK
                       (SuccessResponse ''Profile retrieved successfully''
                          (UserData (userInfo user))))
         | None \<Rightarrow>
             (case mongoDB h of
                Some docs \<Rightarrow>
                  (case ObjectIDFromHex userID of
                     Inl err \<Rightarrow>
                       JSON StatusBadRequest
                         (ErrorResponse (Get (localizer h) lang ''bad_request'')
                            ''Invalid user ID format'')
                   | Inr objectID \<Rightarrow>
                       (case mongo_FindOne (dberr env 0)
                               (\<lambda>d. UserMongo.ID d = objectID) docs of
                          Inl err \<Rightarrow>
                            JSON StatusNotFound
                              (ErrorResponse (Get (localizer h) lang ''user_not_found'')
                                 ''User not found'')
                        | Inr user \<Rightarrow>
                            JSON StatusOK
                              (SuccessResponse ''Profile retrieved successfully''
                                 (UserData (userInfoMongo user)))))
              | None \<Rightarrow> NoReply))"

subsection \<open>UpdateProfile\<close>

definition UpdateProfile_postgres ::
  "Env \<Rightarrow> Handler \<Rightarrow> string \<Rightarrow> string \<Rightarrow> UpdateUserRequest \<Rightarrow> PostgresDB \<Rightarrow> Handler \<times> Reply" where
  "UpdateProfile_postgres env h lang userID req rows =
     (let id = fst (ParseUint userID 32)
      in case pg_First (dberr env 0) (\<lambda>u. User.ID u = id) rows of
           Inl err \<Rightarrow>
             (h, JSON StatusNotFound
                   (ErrorResponse (Get (localizer h) lang ''user_not_found'')
                      ''User not found''))
         | Inr found \<Rightarrow>
             (let user1 = (if UpdateUserRequest.FirstName req \<noteq> []
                           then found\<lparr>User.FirstName := UpdateUserRequest.FirstName req\<rparr>
                           else found);
                  user2 = (if UpdateUserRequest.LastName req \<noteq> []
                           then user1\<lparr>User.LastName := UpdateUserRequest.LastName req\<rparr>
                           else user1);
                  user3 = (if UpdateUserRequest.Email req \<noteq> []
                           then user2\<lparr>User.Email := UpdateUserRequest.Email req\<rparr>
                           else user2);
                  user = user3\<lparr>User.UpdatedAt := clock env 0\<rparr>
              in case pg_Save (dberr env 1) user rows of
                   Inl err \<Rightarrow>
                     (h, JSON StatusInternalServerError
                           (ErrorResponse (Get (localizer h) lang ''internal_error'')
                              ''Failed to update profile''))
                 | Inr rows' \<Rightarrow>
                     (h\<lparr>postgresDB := Some rows'\<rparr>,
                      JSON StatusOK
                        (SuccessResponse (Get (localizer h) lang ''user_updated'')
                           (UserData (userInfo user))))))"

definition UpdateProfile_mongo ::
  "Env \<Rightarrow> Handler \<Rightarrow> string \<Rightarrow> string \<Rightarrow> UpdateUserRequest \<Rightarrow> MongoDB \<Rightarrow> Handler \<times> Reply" where
  "UpdateProfile_mongo env h lang userID req docs =
     (case ObjectIDFromHex userID of
        Inl err \<Rightarrow>
          (h, JSON StatusBadRequest
                (ErrorResponse (Get (localizer h) lang ''bad_request'')
                   ''Invalid user ID format''))
      | Inr objectID \<Rightarrow>
          (let update =
                 [Set_updated_at (clock env 0)] @
                 (if UpdateUserRequest.FirstName req \<noteq> []
                  then [Set_first_name (UpdateUserRequest.FirstName req)] else []) @
                 (if UpdateUserRequest.LastName req \<noteq> []
                  then [Set_last_name (UpdateUserRequest.LastName req)] else []) @
                 (if UpdateUserRequest.Email req \<noteq> []
                  then [Set_email (UpdateUserRequest.Email req)] else [])
           in case mongo_UpdateOne (dberr env 0) (\<lambda>d. UserMongo.ID d = objectID) update
                     docs of
                Inl err \<Rightarrow>
                  (h, JSON StatusInternalServerError
                        (ErrorResponse (Get (localizer h) lang ''internal_error'')
                           ''Failed to update profile''))
              | Inr docs' \<Rightarrow>
                  (case mongo_FindOne (dberr env 1) (\<lambda>d. UserMongo.ID d = objectID)
                          docs' of
                     Inl err \<Rightarrow>
                       (h\<lparr>mongoDB := Some docs'\<rparr>,
                        JSON StatusInternalServerError
                          (ErrorResponse (Get (localizer h) lang ''internal_error'')
                             ''Failed to retrieve updated profile''))
                   | Inr user \<Rightarrow>
                       (h\<lparr>mongoDB := Some docs'\<rparr>,
                        JSON StatusOK
                          (SuccessResponse (Get (localizer h) lang ''user_updated'')
                             (UserData (userInfoMongo user)))))))"

definition UpdateProfile ::
  "Env \<Rightarrow> Handler \<Rightarrow> Context \<Rightarrow> UpdateUserRequest binding \<Rightarrow> Handler \<times> Reply" where
  "UpdateProfile env h c body =
     (let userID = GetString c ''user_id'';
          lang = GetString c ''language''
      in case body of
           BindError err \<Rightarrow>
             (h, JSON StatusBadRequest
                   (ErrorResponse (Get (localizer h) lang ''validation_error'') err))
         | Bound req \<Rightarrow>
             (case postgresDB h of
                Some rows \<Rightarrow> UpdateProfile_postgres env h lang userID req rows
              | None \<Rightarrow>
                  (case mongoDB h of
                     Some docs \<Rightarrow> UpdateProfile_mongo env h lang userID req docs
                   | None \<Rightarrow> (h, NoReply))))"

subsection \<open>GetUsers\<close>

text \<open>
  The relational branch counts and finds on one statement: an error of \<^verbatim>\<open>Count\<close> is not
  looked at, leaves the total at 0 and stays on the statement, where \<^verbatim>\<open>Find\<close> reports
  it. The document branch passes no sort order to the driver.
\<close>

definition search_postgres :: "(string \<Rightarrow> string \<Rightarrow> bool) \<Rightarrow> string \<Rightarrow> User \<Rightarrow> bool" where
  "search_postgres like searchPattern u =
     (like searchPattern (User.FirstName u) \<or> like searchPattern (User.LastName u) \<or>
      like searchPattern (User.Email u) \<or> like searchPattern (User.Username u))"

definition search_mongo :: "(string \<Rightarrow> string \<Rightarrow> bool) \<Rightarrow> string \<Rightarrow> UserMongo \<Rightarrow> bool" where
  "search_mongo rx search d =
     (rx search (UserMongo.FirstName d) \<or> rx search (UserMongo.LastName d) \<or>
      rx search (UserMongo.Email d) \<or> rx search (UserMongo.Username d))"

definition TotalPage_of :: "int \<Rightarrow> int \<Rightarrow> int" where
  "TotalPage_of total' pageSize =
     wrap64 (quo (wrap64 (wrap64 (total' + pageSize) - 1)) pageSize)"

definition GetUsers_postgres :: "Lib \<Rightarrow> Env \<Rightarrow> Handler \<Rightarrow> string \<Rightarrow> PaginationQuery \<Rightarrow> PostgresDB \<Rightarrow> Reply" where
  "GetUsers_postgres lib env h lang query rows =
     (let selected =
            (if PaginationQuery.Search query \<noteq> []
             then filter (\<lambda>u. visible u \<and>
                     search_postgres (ilike lib)
                       (''%'' @ PaginationQuery.Search query @ ''%'') u) rows
             else filter visible rows);
          total' = (if dberr env 0 then 0 else int (length selected));
          offset = wrap64 (wrap64 (PaginationQuery.Page query - 1) *
                     PaginationQuery.PageSize query);
          sort = (if PaginationQuery.Sort query \<noteq> [] then PaginationQuery.Sort query
                  else ''created_at DESC'')
      in case pg_Find (dberr env 0 \<or> dberr env 1) (order_by lib sort) offset
                (PaginationQuery.PageSize query) selected of
           Inl err \<Rightarrow>
             JSON StatusInternalServerError
               (ErrorResponse (Get (localizer h) lang ''internal_error'')
                  ''Failed to retrieve users'')
         | Inr users \<Rightarrow>
             if PaginationQuery.PageSize query = 0 then Panic
             else JSON StatusOK
                    (SuccessResponse ''Users retrieved successfully''
                       (PageData
                          (PaginatedResponse (map userInfo users)
                             \<lparr>Pagination.Page = PaginationQuery.Page query,
                              Pagination.PageSize = PaginationQuery.PageSize query,
                              Pagination.Total = total',
                              Pagination.TotalPage =
                                TotalPage_of total' (PaginationQuery.PageSize query)\<rparr>))))"

definition GetUsers_mongo :: "Lib \<Rightarrow> Env \<Rightarrow> Handler \<Rightarrow> string \<Rightarrow> PaginationQuery \<Rightarrow> MongoDB \<Rightarrow> Reply" where
  "GetUsers_mongo lib env h lang query docs =
     (let flt = (if PaginationQuery.Search query \<noteq> []
                 then search_mongo (regex lib) (PaginationQuery.Search query)
                 else (\<lambda>d. True))
      in case mongo_CountDocuments (dberr env 0) flt docs of
           Inl err \<Rightarrow>
             JSON StatusInternalServerError
               (ErrorResponse (Get (localizer h) lang ''internal_error'')
                  ''Failed to count users'')
         | Inr total' \<Rightarrow>
             (let skip = wrap64 (wrap64 (PaginationQuery.Page query - 1) *
                           PaginationQuery.PageSize query);
                  limit = PaginationQuery.PageSize query
              in case mongo_Find (dberr env 1) flt skip limit docs of
                   Inl err \<Rightarrow>
                     JSON StatusInternalServerError
                       (ErrorResponse (Get (localizer h) lang ''internal_error'')
                          ''Failed to retrieve users'')
                 | Inr cursor \<Rightarrow>
                     (case cursor_All (dberr env 2) cursor of
                        Inl err \<Rightarrow>
                          JSON StatusInternalServerError
                            (ErrorResponse (Get (localizer h) lang ''internal_error'')
                               ''Failed to decode users'')
                      | Inr users \<Rightarrow>
                          if PaginationQuery.PageSize query = 0 then Panic
                          else JSON StatusOK
                                 (SuccessResponse ''Users retrieved successfully''
                                    (PageData
                                       (PaginatedResponse (map userInfoMongo users)
                                          \<lparr>Pagination.Page = PaginationQuery.Page query,
                                           Pagination.PageSize =
                                             PaginationQuery.PageSize query,
                                           Pagination.Total = total',
                                           Pagination.TotalPage =
                                             TotalPage_of total'
                                               (PaginationQuery.PageSize query)\<rparr>))))))"

definition GetUsers :: "Lib \<Rightarrow> Env \<Rightarrow> Handler \<Rightarrow> Context \<Rightarrow> PaginationQuery binding \<Rightarrow> Reply" where
  "GetUsers lib env h c bound =
     (let lang = GetString c ''language''
      in case bound of
           BindError err \<Rightarrow>
             JSON StatusBadRequest
               (ErrorResponse (Get (localizer h) lang ''validation_error'') err)
         | Bound query \<Rightarrow>
             (case postgresDB h of
                Some rows \<Rightarrow> GetUsers_postgres lib env h lang query rows
              | None \<Rightarrow>
                  (case mongoDB h of
                     Some docs \<Rightarrow> GetUsers_mongo lib env h lang query docs
                   | None \<Rightarrow> NoReply)))"

subsection \<open>HealthCheck\<close>

definition check_postgres ::
  "Env \<Rightarrow> Handler \<Rightarrow> (string \<rightharpoonup> string) \<times> string \<Rightarrow> (string \<rightharpoonup> string) \<times> string" where
  "check_postgres env h st =
     (case postgresDB h of
        None \<Rightarrow> st
      | Some db \<Rightarrow>
          (case PostgresDB_HealthCheck env of
             Some err \<Rightarrow> ((fst st)(''postgresql'' \<mapsto> ''unhealthy''), ''unhealthy'')
           | None \<Rightarrow> ((fst st)(''postgresql'' \<mapsto> ''healthy''), snd st)))"

definition check_mongo ::
  "Env \<Rightarrow> Handler \<Rightarrow> (string \<rightharpoonup> string) \<times> string \<Rightarrow> (string \<rightharpoonup> string) \<times> string" where
  "check_mongo env h st =
     (case mongoDB h of
        None \<Rightarrow> st
      | Some db \<Rightarrow>
          (case MongoDB_HealthCheck env of
             Some err \<Rightarrow> ((fst st)(''mongodb'' \<mapsto> ''unhealthy''), ''unhealthy'')
           | None \<Rightarrow> ((fst st)(''mongodb'' \<mapsto> ''healthy''), snd st)))"

definition HealthCheck :: "Env \<Rightarrow> Handler \<Rightarrow> Reply" where
  "HealthCheck env h =
     (let st = check_mongo env h (check_postgres env h (Map.empty, ''healthy''));
          services = fst st;
          overallStatus = snd st;
          healthResponse =
            \<lparr>HealthResponse.Status = overallStatus,
             HealthResponse.Timestamp = clock env 0,
             HealthResponse.Services = services,
             HealthResponse.Version = ''1.0.0''\<rparr>
      in if overallStatus = ''healthy''
         then JSON StatusOK (SuccessResponse ''System is healthy'' (HealthData healthResponse))
         else JSON StatusServiceUnavailable
                (ErrorResponse ''System is unhealthy'' ''One or more services are down''))"

section \<open>Views of the stored users\<close>

text \<open>
  Three readings of the active backend (the relational one when it is configured, else
  the document one), used to state what the handlers do without naming the backend:
  whether an e-mail address or a user name belongs to a user that queries see, the hash
  stored for the first such user with a given e-mail address, and the stored users as
  public fields, hash and deletion time.
\<close>

definition taken :: "Handler \<Rightarrow> string \<Rightarrow> string \<Rightarrow> bool" where
  "taken h email username =
     (case postgresDB h of
        Some rows \<Rightarrow>
          list_ex (\<lambda>u. visible u \<and> (User.Email u = email \<or> User.Username u = username)) rows
      | None \<Rightarrow>
          (case mongoDB h of
             Some docs \<Rightarrow>
               list_ex (\<lambda>d. UserMongo.Email d = email \<or> UserMongo.Username d = username) docs
           | None \<Rightarrow> False))"

definition stored_password :: "Handler \<Rightarrow> string \<Rightarrow> hashed option" where
  "stored_password h email =
     (case postgresDB h of
        Some rows \<Rightarrow>
          map_option User.Password (find (\<lambda>u. visible u \<and> User.Email u = email) rows)
      | None \<Rightarrow>
          (case mongoDB h of
             Some docs \<Rightarrow>
               map_option UserMongo.Password (find (\<lambda>d. UserMongo.Email d = email) docs)
           | None \<Rightarrow> None))"

definition stored_users :: "Handler \<Rightarrow> (UserInfo \<times> hashed \<times> time option) list" where
  "stored_users h =
     (case postgresDB h of
        Some rows \<Rightarrow> map (\<lambda>u. (userInfo u, User.Password u, User.DeletedAt u)) rows
      | None \<Rightarrow>
          (case mongoDB h of
             Some docs \<Rightarrow> map (\<lambda>d. (userInfoMongo d, UserMongo.Password d, None)) docs
           | None \<Rightarrow> []))"

text \<open>
  The e-mail addresses and the user names of the stored users that queries see (those
  not marked as deleted), in the order of the store.
\<close>

definition emails :: "Handler \<Rightarrow> string list" where
  "emails h =
     map (\<lambda>s. UserInfo.Email (fst s)) (filter (\<lambda>s. snd (snd s) = None) (stored_users h))"

definition usernames :: "Handler \<Rightarrow> string list" where
  "usernames h =
     map (\<lambda>s. UserInfo.Username (fst s)) (filter (\<lambda>s. snd (snd s) = None) (stored_users h))"

text \<open>
  The identifier under which a handler looks the caller up: what the relational branch
  parses from \<^verbatim>\<open>user_id\<close>, or the ObjectID the document branch reads from it.
\<close>

definition caller :: "Handler \<Rightarrow> Context \<Rightarrow> iface option" where
  "caller h c =
     (case postgresDB h of
        Some rows \<Rightarrow> Some (INum (fst (ParseUint (GetString c ''user_id'') 32)))
      | None \<Rightarrow>
          (case mongoDB h of
             Some docs \<Rightarrow>
               (case ObjectIDFromHex (GetString c ''user_id'') of
                  Inl err \<Rightarrow> None
                | Inr objectID \<Rightarrow> Some (IStr (Hex objectID)))
           | None \<Rightarrow> None))"

text \<open>
  The update the specification describes, on the public fields of a user: a first name,
  last name or e-mail address that the request supplies non-empty replaces the stored
  one, an empty one leaves it, and the time of the update is set.
\<close>

definition spec_update :: "UpdateUserRequest \<Rightarrow> time \<Rightarrow> UserInfo \<Rightarrow> UserInfo" where
  "spec_update req now info =
     info\<lparr>UserInfo.FirstName :=
            (if UpdateUserRequest.FirstName req = [] then UserInfo.FirstName info
             else UpdateUserRequest.FirstName req),
          UserInfo.LastName :=
            (if UpdateUserRequest.LastName req = [] then UserInfo.LastName info
             else UpdateUserRequest.LastName req),
          UserInfo.Email :=
            (if UpdateUserRequest.Email req = [] then UserInfo.Email info
             else UpdateUserRequest.Email req),
          UserInfo.UpdatedAt := now\<rparr>"

section \<open>Example data\<close>

text \<open>
  Stand-ins for the parameters, for running the model: a signer that returns the key, a
  cipher that returns the key bytes, matches that always succeed, an ordering that leaves
  the rows as they are; an environment where nothing fails and the clock stands at
  second 1000; a localizer without tables, which returns every key as its own text.
\<close>

definition example_lib :: Lib where
  "example_lib =
     \<lparr>hs256 = (\<lambda>key claims. Some key), eks = (\<lambda>cost salt key. key),
      ilike = (\<lambda>pattern text. True), regex = (\<lambda>pattern text. True),
      order_by = (\<lambda>sort rows. Some rows)\<rparr>"

definition example_env :: Env where
  "example_env =
     \<lparr>clock = (\<lambda>k. 1000), rand = Some ''salt'', dberr = (\<lambda>k. False),
      newObjectID = ''507f1f77bcf86cd799439011'', sqlDBErr = False, sqlPingErr = False,
      mongoPingErr = False\<rparr>"

definition example_localizer :: Localizer where
  "example_localizer = \<lparr>DefaultLanguage = ''en'', translations' = Map.empty\<rparr>"

definition alice :: User where
  "alice =
     \<lparr>User.ID = 1, User.Email = ''alice@example.com'', User.Username = ''alice'',
      User.Password = Hashed 10 ''salt'' (bcrypt_key ''wonderland''),
      User.FirstName = ''Alice'', User.LastName = ''Liddell'', User.Role = ''user'',
      User.IsActive = True, User.CreatedAt = 500, User.UpdatedAt = 500,
      User.DeletedAt = None\<rparr>"

definition bob :: User where
  "bob =
     \<lparr>User.ID = 2, User.Email = ''bob@example.com'', User.Username = ''bob'',
      User.Password = Hashed 10 ''salt'' (bcrypt_key ''builder1''),
      User.FirstName = ''Bob'', User.LastName = ''Builder'', User.Role = ''admin'',
      User.IsActive = True, User.CreatedAt = 600, User.UpdatedAt = 600,
      User.DeletedAt = None\<rparr>"

definition carol :: UserMongo where
  "carol =
     \<lparr>UserMongo.ID = ''507f191e810c19729de860ea'', UserMongo.Email = ''carol@example.com'',
      UserMongo.Username = ''carol'',
      UserMongo.Password = Hashed 10 ''salt'' (bcrypt_key ''christmas''),
      UserMongo.FirstName = ''Carol'', UserMongo.LastName = ''Singer'',
      UserMongo.Role = ''user'', UserMongo.IsActive = True, UserMongo.CreatedAt = 700,
      UserMongo.UpdatedAt = 700\<rparr>"

definition dave :: UserMongo where
  "dave =
     \<lparr>UserMongo.ID = ''507f191e810c19729de860eb'', UserMongo.Email = ''dave@example.com'',
      UserMongo.Username = ''dave'',
      UserMongo.Password = Hashed 10 ''salt'' (bcrypt_key ''davenport''),
      UserMongo.FirstName = ''Dave'', UserMongo.LastName = ''Port'',
      UserMongo.Role = ''user'', UserMongo.IsActive = True, UserMongo.CreatedAt = 800,
      UserMongo.UpdatedAt = 800\<rparr>"

definition relational :: Handler where
  "relational =
     \<lparr>mongoDB = None, postgresDB = Some [alice, bob], localizer = example_localizer,
      Secret = ''secret''\<rparr>"

definition document :: Handler where
  "document =
     \<lparr>mongoDB = Some [carol, dave], postgresDB = None, localizer = example_localizer,
      Secret = ''secret''\<rparr>"

definition unconfigured :: Handler where
  "unconfigured =
     \<lparr>mongoDB = None, postgresDB = None, localizer = example_localizer,
      Secret = ''secret''\<rparr>"

definition both_backends :: Handler where
  "both_backends =
     \<lparr>mongoDB = Some [carol, dave], postgresDB = Some [alice, bob],
      localizer = example_localizer, Secret = ''secret''\<rparr>"

definition ann :: RegisterRequest where
  "ann =
     \<lparr>RegisterRequest.Email = ''ann@example.com'', RegisterRequest.Username = ''ann'',
      RegisterRequest.Password = ''secret1'', RegisterRequest.FirstName = ''Ann'',
      RegisterRequest.LastName = ''Lee''\<rparr>"

definition alice_token :: TokenString where
  "alice_token =
     Compact \<lparr>Claims.UserID = INum 1, Claims.Email = ''alice@example.com'',
               Claims.Username = ''alice'', Claims.Role = ''user'',
               Claims.ExpiresAt = Some (1000 + 24 * Hour), Claims.IssuedAt = Some 1000,
               Claims.NotBefore = Some 1000\<rparr> ''secret''"

definition carol_token :: TokenString where
  "carol_token =
     Compact \<lparr>Claims.UserID = IStr ''507f191e810c19729de860ea'',
               Claims.Email = ''carol@example.com'', Claims.Username = ''carol'',
               Claims.Role = ''user'', Claims.ExpiresAt = Some (1000 + 24 * Hour),
               Claims.IssuedAt = Some 1000, Claims.NotBefore = Some 1000\<rparr> ''secret''"

definition far_page :: PaginationQuery where
  "far_page =
     \<lparr>PaginationQuery.Page = 2 ^ 62 + 1, PaginationQuery.PageSize = 4,
      PaginationQuery.Sort = [], PaginationQuery.Search = []\<rparr>"

definition smith :: UpdateUserRequest where
  "smith =
     \<lparr>UpdateUserRequest.FirstName = [], UpdateUserRequest.LastName = ''Smith'',
      UpdateUserRequest.Email = []\<rparr>"

definition as_alice :: Context where
  "as_alice = [''user_id'' \<mapsto> IStr ''1'']"


section \<open>Facts about the views\<close>

lemma find_Some_ex: "list_ex P xs \<Longrightarrow> \<exists>x. find P xs = Some x"
  by (induction xs) auto

lemma stored_users_postgres:
  "postgresDB h = Some rows \<Longrightarrow>
   stored_users h = map (\<lambda>u. (userInfo u, User.Password u, User.DeletedAt u)) rows"
  by (simp add: stored_users_def)

lemma stored_users_mongo:
  "postgresDB h = None \<Longrightarrow> mongoDB h = Some docs \<Longrightarrow>
   stored_users h = map (\<lambda>d. (userInfoMongo d, UserMongo.Password d, None)) docs"
  by (simp add: stored_users_def)

lemma emails_postgres:
  assumes "postgresDB h = Some rows"
  shows "emails h = map User.Email (filter (\<lambda>u. User.DeletedAt u = None) rows)"
    and "usernames h = map User.Username (filter (\<lambda>u. User.DeletedAt u = None) rows)"
  using assms
  by (simp_all add: emails_def usernames_def stored_users_def filter_map comp_def userInfo_def)

lemma emails_mongo:
  assumes "postgresDB h = None" and "mongoDB h = Some docs"
  shows "emails h = map UserMongo.Email docs"
    and "usernames h = map UserMongo.Username docs"
  using assms
  by (simp_all add: emails_def usernames_def stored_users_def filter_map comp_def
        userInfoMongo_def)

lemma taken_iff:
  "taken h email username \<longleftrightarrow> email \<in> set (emails h) \<or> username \<in> set (usernames h)"
proof (cases "postgresDB h")
  case (Some rows)
  then show ?thesis
    by (auto simp: taken_def list_ex_iff emails_postgres [OF Some] visible_def)
next
  case None
  show ?thesis
  proof (cases "mongoDB h")
    case (Some docs)
    with None show ?thesis
      by (auto simp: taken_def list_ex_iff emails_mongo [OF None Some])
  next
    case none: None
    with None show ?thesis
      by (simp add: taken_def emails_def usernames_def stored_users_def)
  qed
qed

section \<open>Token lifetime\<close>

text \<open>
  Claim C4. A token issued at time \<open>t\<close> (every reading of the clock during the call is
  \<open>t\<close>; signing succeeds) carries the identity it was given, issue date \<open>t\<close>, not-before
  date \<open>t\<close> and expiry \<open>t + 24\<close> hours, which is also the expiry returned to the caller.
  Validation with the same secret returns these claims at every time strictly between
  \<open>t\<close> and the expiry, so 23 hours 59 minutes after \<open>t\<close>, and fails with the expiry
  error at every time after the expiry, so 24 hours 1 minute after \<open>t\<close>.
\<close>

theorem GenerateToken_ValidateToken:
  assumes "claims = \<lparr>Claims.UserID = userID, Claims.Email = email,
                      Claims.Username = username, Claims.Role = role,
                      Claims.ExpiresAt = Some (t + 24 * Hour),
                      Claims.IssuedAt = Some t, Claims.NotBefore = Some t\<rparr>"
    and "sign secret claims = Some signature"
    and "tok = Compact claims signature"
  shows "GenerateToken sign (\<lambda>k. t) secret userID email username role =
           Inr (tok, t + 24 * Hour) \<and>
         (\<forall>now. t < now \<and> now < t + 24 * Hour \<longrightarrow>
                ValidateToken sign now secret tok = Inr claims) \<and>
         ValidateToken sign (t + 23 * Hour + 59 * Minute) secret tok = Inr claims \<and>
         (\<forall>now. t + 24 * Hour < now \<longrightarrow>
                ValidateToken sign now secret tok = Inl ErrTokenExpired) \<and>
         ValidateToken sign (t + 24 * Hour + 1 * Minute) secret tok = Inl ErrTokenExpired"
  using assms
  by (simp add: GenerateToken_def ValidateToken_def ParseWithClaims_def Let_def Hour_def
        Minute_def)

text \<open>
  The theorem at work: Alice's token, issued at second 1000 under a signer that returns
  the key as the signature, is valid 23 hours 59 minutes later and expired 24 hours
  1 minute later.
\<close>

theorem GenerateToken_ValidateToken_witness:
  "GenerateToken (\<lambda>key claims. Some key) (\<lambda>k. 1000) ''secret'' (INum 1)
     ''alice@example.com'' ''alice'' ''user'' = Inr (alice_token, 1000 + 24 * Hour) \<and>
   (\<exists>claims. ValidateToken (\<lambda>key claims. Some key) (1000 + 23 * Hour + 59 * Minute)
       ''secret'' alice_token = Inr claims) \<and>
   ValidateToken (\<lambda>key claims. Some key) (1000 + 24 * Hour + 1 * Minute) ''secret''
     alice_token = Inl ErrTokenExpired"
  using GenerateToken_ValidateToken [of
      "\<lparr>Claims.UserID = INum 1, Claims.Email = ''alice@example.com'',
        Claims.Username = ''alice'', Claims.Role = ''user'',
        Claims.ExpiresAt = Some (1000 + 24 * Hour), Claims.IssuedAt = Some 1000,
        Claims.NotBefore = Some 1000\<rparr>"
      "INum 1" "''alice@example.com''" "''alice''" "''user''" 1000
      "\<lambda>key claims. Some key" "''secret''" "''secret''" alice_token]
  by (simp add: alice_token_def)

section \<open>Password hashing and verification\<close>

lemma bcrypt_key_long: "72 \<le> length p \<Longrightarrow> bcrypt_key p = take 72 p"
proof -
  assume long: "72 \<le> length p"
  have "replicate 72 (p @ [CHR 0x00]) = (p @ [CHR 0x00]) # replicate 71 (p @ [CHR 0x00])"
    by (simp add: numeral_eq_Suc)
  then show ?thesis using long by (simp add: bcrypt_key_def)
qed

text \<open>
  Claim C9, as amended. For every password of at most 72 bytes and every salt the
  hashing step draws, hashing succeeds and the password verifies against its own hash.
  Verifying any other password against that hash never reports a malformed hash: it
  succeeds when bcrypt gives that password the stored digest under the stored salt and
  cost, which it does whenever the two passwords have the same 72 key bytes, and it
  reports a mismatch otherwise.
\<close>

theorem HashPassword_VerifyPassword:
  assumes "length p \<le> 72"
  shows "\<exists>h. HashPassword cipher (Some salt) p = Inr h \<and>
           VerifyPassword cipher h p = None \<and>
           (\<forall>p2. VerifyPassword cipher h p2 =
              (if bcrypt cipher p2 DefaultCost salt = bcrypt cipher p DefaultCost salt
               then None else Some ErrMismatchedHashAndPassword)) \<and>
           (\<forall>p2. bcrypt_key p2 = bcrypt_key p \<longrightarrow> VerifyPassword cipher h p2 = None)"
  using assms
  by (simp add: HashPassword_def GenerateFromPassword_def VerifyPassword_def
        CompareHashAndPassword_def bcrypt_def)

text \<open>
  The theorem at work, with a cipher that returns the key bytes as the digest: the
  password verifies against its hash.
\<close>

theorem HashPassword_VerifyPassword_witness:
  "VerifyPassword (\<lambda>cost salt key. key)
     (Hashed DefaultCost ''salt'' (bcrypt (\<lambda>cost salt key. key) ''secret1'' DefaultCost ''salt''))
     ''secret1'' = None"
  using HashPassword_VerifyPassword [of "''secret1''" "\<lambda>cost salt key. key" "''salt''"]
  by (simp add: HashPassword_def GenerateFromPassword_def)

text \<open>
  Claim C9 as stated fails: whatever the cipher and the salt, a password of 72 bytes
  and the same password with one more byte are distinct, and the longer one verifies
  against the hash of the shorter one.
\<close>

theorem VerifyPassword_accepts_longer_password:
  "\<forall>cipher salt. \<exists>h.
      HashPassword cipher (Some salt) (replicate 72 (CHR ''a'')) = Inr h \<and>
      VerifyPassword cipher h (replicate 72 (CHR ''a'') @ ''b'') = None \<and>
      replicate 72 (CHR ''a'') \<noteq> replicate 72 (CHR ''a'') @ ''b''"
  by (simp add: HashPassword_def GenerateFromPassword_def VerifyPassword_def
        CompareHashAndPassword_def bcrypt_def bcrypt_key_long)

section \<open>Health\<close>

text \<open>
  Claim C7. The health handler checks each configured backend on its own. It answers
  200 with overall status healthy, and every configured backend listed as healthy,
  exactly when the check of every configured backend succeeds; as soon as the check of
  one configured backend fails it answers 503 with the unhealthy envelope.
\<close>

theorem HealthCheck_healthy_iff:
  "HealthCheck env h =
     (if (postgresDB h = None \<or> PostgresDB_HealthCheck env = None) \<and>
         (mongoDB h = None \<or> MongoDB_HealthCheck env = None)
      then JSON StatusOK
             (SuccessResponse ''System is healthy''
                (HealthData
                   \<lparr>HealthResponse.Status = ''healthy'',
                    HealthResponse.Timestamp = clock env 0,
                    HealthResponse.Services =
                      (\<lambda>k. if k = ''mongodb'' \<and> mongoDB h \<noteq> None then Some ''healthy''
                           else if k = ''postgresql'' \<and> postgresDB h \<noteq> None
                                then Some ''healthy''
                           else None),
                    HealthResponse.Version = ''1.0.0''\<rparr>))
      else JSON StatusServiceUnavailable
             (ErrorResponse ''System is unhealthy'' ''One or more services are down''))"
proof (cases "(postgresDB h = None \<or> PostgresDB_HealthCheck env = None) \<and>
         (mongoDB h = None \<or> MongoDB_HealthCheck env = None)")
  case True
  have services:
    "fst (check_mongo env h (check_postgres env h (Map.empty, ''healthy''))) =
       (\<lambda>k. if k = ''mongodb'' \<and> mongoDB h \<noteq> None then Some ''healthy''
            else if k = ''postgresql'' \<and> postgresDB h \<noteq> None then Some ''healthy''
            else None)"
    using True
    by (intro ext) (auto simp: check_mongo_def check_postgres_def split: option.splits)
  have status:
    "snd (check_mongo env h (check_postgres env h (Map.empty, ''healthy''))) = ''healthy''"
    using True by (auto simp: check_mongo_def check_postgres_def split: option.splits)
  show ?thesis using True by (simp add: HealthCheck_def Let_def services status)
next
  case False
  have status:
    "snd (check_mongo env h (check_postgres env h (Map.empty, ''healthy''))) = ''unhealthy''"
    using False by (auto simp: check_mongo_def check_postgres_def split: option.splits)
  show ?thesis using False by (simp add: HealthCheck_def Let_def status)
qed

text \<open>
  The theorem at work with both backends configured: 503 when only the ping of the
  document backend fails, 200 when both checks succeed.
\<close>

theorem HealthCheck_one_of_two_fails:
  "HealthCheck (example_env\<lparr>mongoPingErr := True\<rparr>) both_backends =
     JSON StatusServiceUnavailable
       (ErrorResponse ''System is unhealthy'' ''One or more services are down'') \<and>
   HealthCheck example_env both_backends =
     JSON StatusOK
       (SuccessResponse ''System is healthy''
          (HealthData
             \<lparr>HealthResponse.Status = ''healthy'', HealthResponse.Timestamp = 1000,
              HealthResponse.Services =
                (\<lambda>k. if k = ''mongodb'' then Some ''healthy''
                     else if k = ''postgresql'' then Some ''healthy'' else None),
              HealthResponse.Version = ''1.0.0''\<rparr>))"
  using HealthCheck_healthy_iff [of "example_env\<lparr>mongoPingErr := True\<rparr>" both_backends]
    HealthCheck_healthy_iff [of example_env both_backends]
  by (simp add: both_backends_def example_env_def MongoDB_HealthCheck_def
        PostgresDB_HealthCheck_def cong del: if_weak_cong)

section \<open>No backend configured\<close>

text \<open>
  Claim C8, as amended. When neither backend is configured, a request that passes input
  validation gets no response and changes nothing in the handlers that branch on the
  backend: login, get-profile, update-profile and list-users always, registration once
  the password has been hashed. Registration hashes the password before it looks at the
  backends: whenever hashing fails it answers 500 with the envelope of a password that
  could not be processed, and changes nothing. The health handler does not branch on
  the backend for its reply: with no backend to check it answers 200, healthy, with an
  empty list of services.
\<close>

theorem no_backend_no_reply:
  assumes "postgresDB h = None" and "mongoDB h = None"
  shows "(\<forall>hp. HashPassword (eks lib) (rand env) (RegisterRequest.Password reg) = Inr hp \<longrightarrow>
             Register lib env h c (Bound reg) = (h, NoReply)) \<and>
         (\<forall>err. HashPassword (eks lib) (rand env) (RegisterRequest.Password reg) = Inl err \<longrightarrow>
             Register lib env h c (Bound reg) =
               (h, JSON StatusInternalServerError
                     (ErrorResponse
                        (Get (localizer h) (GetString c ''language'') ''internal_error'')
                        ''Failed to process password''))) \<and>
         Login lib env h c (Bound login) = NoReply \<and>
         GetProfile env h c = NoReply \<and>
         UpdateProfile env h c (Bound upd) = (h, NoReply) \<and>
         GetUsers lib env h c (Bound query) = NoReply \<and>
         HealthCheck env h =
           JSON StatusOK
             (SuccessResponse ''System is healthy''
                (HealthData
                   \<lparr>HealthResponse.Status = ''healthy'',
                    HealthResponse.Timestamp = clock env 0,
                    HealthResponse.Services = Map.empty,
                    HealthResponse.Version = ''1.0.0''\<rparr>))"
  using assms
  by (simp add: Register_def Login_def GetProfile_def UpdateProfile_def GetUsers_def Let_def
        HealthCheck_def check_postgres_def check_mongo_def)

text \<open>
  The theorem at work on the handler without backends: a registration whose password is
  hashed, one whose password of 73 bytes is not, and a profile request.
\<close>

theorem no_backend_no_reply_witness:
  "Register example_lib example_env unconfigured Map.empty (Bound ann) =
     (unconfigured, NoReply) \<and>
   Register example_lib example_env unconfigured Map.empty
     (Bound (ann\<lparr>RegisterRequest.Password := replicate 73 (CHR ''x'')\<rparr>)) =
     (unconfigured,
      JSON StatusInternalServerError
        (ErrorResponse ''internal_error'' ''Failed to process password'')) \<and>
   GetProfile example_env unconfigured Map.empty = NoReply"
  using no_backend_no_reply [of unconfigured example_lib example_env ann Map.empty]
    no_backend_no_reply [of unconfigured example_lib example_env
      "ann\<lparr>RegisterRequest.Password := replicate 73 (CHR ''x'')\<rparr>" Map.empty]
  by (simp add: unconfigured_def HashPassword_def GenerateFromPassword_def ann_def
        example_env_def example_localizer_def Get_def GetString_def)

text \<open>
  Claim C8 as stated fails for registration: with no backend configured, a request that
  passes validation is answered with the 500 envelope when its password cannot be
  hashed, whatever the primitives and the rest of the environment: a password of 73
  bytes, or no salt to draw.
\<close>

theorem Register_without_backend_replies:
  "(\<forall>lib env. Register lib env unconfigured Map.empty
       (Bound (ann\<lparr>RegisterRequest.Password := replicate 73 (CHR ''x'')\<rparr>)) =
       (unconfigured,
        JSON StatusInternalServerError
          (ErrorResponse ''internal_error'' ''Failed to process password''))) \<and>
   (\<forall>lib env. Register lib (env\<lparr>rand := None\<rparr>) unconfigured Map.empty (Bound ann) =
       (unconfigured,
        JSON StatusInternalServerError
          (ErrorResponse ''internal_error'' ''Failed to process password''))) \<and>
   postgresDB unconfigured = None \<and> mongoDB unconfigured = None"
  by (simp add: Register_def HashPassword_def GenerateFromPassword_def ann_def unconfigured_def
        example_localizer_def Get_def GetString_def)

section \<open>Registration conflicts\<close>

lemma Register_hash_fails:
  assumes "HashPassword (eks lib) (rand env) (RegisterRequest.Password req) = Inl err"
  shows "Register lib env h c (Bound req) =
           (h, JSON StatusInternalServerError
                 (ErrorResponse (Get (localizer h) (GetString c ''language'') ''internal_error'')
                    ''Failed to process password''))"
  using assms by (simp add: Register_def)

lemma Register_conflict_taken:
  assumes "HashPassword (eks lib) (rand env) (RegisterRequest.Password req) = Inr hp"
    and "\<not> dberr env 0"
    and "taken h (RegisterRequest.Email req) (RegisterRequest.Username req)"
  shows "Register lib env h c (Bound req) =
           (h, JSON StatusConflict
                 (ErrorResponse (Get (localizer h) (GetString c ''language'') ''email_exists'')
                    ''User already exists''))"
proof (cases "postgresDB h")
  case (Some rows)
  with assms(3) obtain u where
    "find (\<lambda>u. visible u \<and> (User.Email u = RegisterRequest.Email req \<or>
        User.Username u = RegisterRequest.Username req)) rows = Some u"
    using find_Some_ex by (fastforce simp: taken_def)
  with assms(1,2) Some show ?thesis
    by (simp add: Register_def Register_postgres_def pg_First_def Let_def)
next
  case None
  with assms(3) obtain docs where docs: "mongoDB h = Some docs"
    by (auto simp: taken_def split: option.splits)
  with assms(3) None obtain d where
    "find (\<lambda>d. UserMongo.Email d = RegisterRequest.Email req \<or>
        UserMongo.Username d = RegisterRequest.Username req) docs = Some d"
    using find_Some_ex by (fastforce simp: taken_def)
  with assms(1,2) None docs show ?thesis
    by (simp add: Register_def Register_mongo_def mongo_FindOne_def Let_def)
qed

lemma Register_created_taken:
  assumes "Register lib env h c (Bound req) = (h', JSON StatusCreated r)"
  shows "taken h' (RegisterRequest.Email req) username"
  using assms
  by (auto simp: Register_def Register_postgres_def Register_mongo_def pg_Create_def
        mongo_InsertOne_def taken_def visible_def Let_def
        split: sum.splits option.splits if_splits prod.splits)

text \<open>
  When the existence query itself ends in an error, the handler takes the branch of
  \<^verbatim>\<open>err != nil\<close>, which is also the branch of a query that found nothing: it never
  answers 409 and goes on to the insert.
\<close>

lemma Register_check_fails_never_conflict:
  assumes "HashPassword (eks lib) (rand env) (RegisterRequest.Password req) = Inr hp"
    and "dberr env 0"
  shows "snd (Register lib env h c (Bound req)) \<noteq> JSON StatusConflict r"
  using assms
  by (simp add: Register_def Register_postgres_def Register_mongo_def pg_First_def
        mongo_FindOne_def Let_def split: option.splits sum.splits prod.splits)

lemma Register_check_fails_inserts:
  assumes hash: "HashPassword (eks lib) (rand env) (RegisterRequest.Password req) = Inr hp"
    and taken: "taken h (RegisterRequest.Email req) (RegisterRequest.Username req)"
    and e0: "dberr env 0" and e1: "\<not> dberr env 1"
    and fresh: "IStr (Hex (newObjectID env)) \<notin>
                  set (map (\<lambda>s. UserInfo.ID (fst s)) (stored_users h))"
  shows "\<exists>h' r new. Register lib env h c (Bound req) = (h', r) \<and>
           stored_users h' = stored_users h @ [(new, hp, None)] \<and>
           UserInfo.Email new = RegisterRequest.Email req \<and>
           UserInfo.Username new = RegisterRequest.Username req"
proof (cases "postgresDB h")
  case (Some rows)
  with hash e0 e1 show ?thesis
    by (simp add: Register_def Register_postgres_def pg_First_def pg_Create_def Let_def
          stored_users_def userInfo_def split: sum.splits prod.splits)
next
  case None
  with taken obtain docs where docs: "mongoDB h = Some docs"
    by (cases "mongoDB h") (auto simp: taken_def)
  from fresh have "newObjectID env \<notin> UserMongo.ID ` set docs"
    by (auto simp: stored_users_mongo [OF None docs] userInfoMongo_def image_iff)
  with hash e0 e1 None docs show ?thesis
    by (simp add: Register_def Register_mongo_def mongo_FindOne_def mongo_InsertOne_def Let_def
          stored_users_def userInfoMongo_def split: sum.splits prod.splits)
qed

text \<open>
  The only change a registration makes to the handler is the insert of the user of the
  request, and it is made only after the existence query returned no user.
\<close>

lemma Register_postgres_changes:
  assumes db: "postgresDB h = Some rows"
    and run: "Register_postgres lib env h lang req hp rows = (h', reply)"
    and changed: "h' \<noteq> h"
  shows "(dberr env 0 \<or> \<not> taken h (RegisterRequest.Email req) (RegisterRequest.Username req)) \<and>
         \<not> dberr env 1 \<and>
         (\<exists>new. stored_users h' = stored_users h @ [(new, hp, None)] \<and>
            UserInfo.Email new = RegisterRequest.Email req \<and>
            UserInfo.Username new = RegisterRequest.Username req)"
proof -
  let ?P = "\<lambda>u. visible u \<and> (User.Email u = RegisterRequest.Email req \<or>
                      User.Username u = RegisterRequest.Username req)"
  from run changed have first: "dberr env 0 \<or> find ?P rows = None"
    by (auto simp: Register_postgres_def pg_First_def Let_def split: if_splits option.splits)
  have "find ?P rows = None \<Longrightarrow>
      \<not> taken h (RegisterRequest.Email req) (RegisterRequest.Username req)"
    using db by (auto simp: taken_def list_ex_iff find_None_iff)
  with first have a: "dberr env 0 \<or>
      \<not> taken h (RegisterRequest.Email req) (RegisterRequest.Username req)" by blast
  from run changed have b: "\<not> dberr env 1"
    by (auto simp: Register_postgres_def pg_Create_def Let_def split: sum.splits)
  from run changed b have
    "\<exists>new. stored_users h' = stored_users h @ [(new, hp, None)] \<and>
            UserInfo.Email new = RegisterRequest.Email req \<and>
            UserInfo.Username new = RegisterRequest.Username req"
    by (auto simp: Register_postgres_def pg_Create_def Let_def stored_users_def db
          userInfo_def split: sum.splits)
  with a b show ?thesis by blast
qed

lemma Register_mongo_changes:
  assumes none: "postgresDB h = None" and db: "mongoDB h = Some docs"
    and run: "Register_mongo lib env h lang req hp docs = (h', reply)"
    and changed: "h' \<noteq> h"
  shows "(dberr env 0 \<or> \<not> taken h (RegisterRequest.Email req) (RegisterRequest.Username req)) \<and>
         \<not> dberr env 1 \<and>
         (\<exists>new. stored_users h' = stored_users h @ [(new, hp, None)] \<and>
            UserInfo.Email new = RegisterRequest.Email req \<and>
            UserInfo.Username new = RegisterRequest.Username req)"
proof -
  let ?P = "\<lambda>d. UserMongo.Email d = RegisterRequest.Email req \<or>
                      UserMongo.Username d = RegisterRequest.Username req"
  from run changed have first: "dberr env 0 \<or> find ?P docs = None"
    by (auto simp: Register_mongo_def mongo_FindOne_def Let_def split: if_splits option.splits)
  have "find ?P docs = None \<Longrightarrow>
      \<not> taken h (RegisterRequest.Email req) (RegisterRequest.Username req)"
    using none db by (auto simp: taken_def list_ex_iff find_None_iff)
  with first have a: "dberr env 0 \<or>
      \<not> taken h (RegisterRequest.Email req) (RegisterRequest.Username req)" by blast
  from run changed have b: "\<not> dberr env 1"
    by (auto simp: Register_mongo_def mongo_InsertOne_def Let_def split: sum.splits)
  from run changed b have
    "\<exists>new. stored_users h' = stored_users h @ [(new, hp, None)] \<and>
            UserInfo.Email new = RegisterRequest.Email req \<and>
            UserInfo.Username new = RegisterRequest.Username req"
    by (auto simp: Register_mongo_def mongo_InsertOne_def Let_def stored_users_def none db
          userInfoMongo_def split: sum.splits if_splits)
  with a b show ?thesis by blast
qed

lemma Register_changes:
  assumes run: "Register lib env h c body = (h', reply)" and changed: "h' \<noteq> h"
  shows "\<exists>req hp new. body = Bound req \<and>
           HashPassword (eks lib) (rand env) (RegisterRequest.Password req) = Inr hp \<and>
           (dberr env 0 \<or>
            \<not> taken h (RegisterRequest.Email req) (RegisterRequest.Username req)) \<and>
           \<not> dberr env 1 \<and>
           stored_users h' = stored_users h @ [(new, hp, None)] \<and>
           UserInfo.Email new = RegisterRequest.Email req \<and>
           UserInfo.Username new = RegisterRequest.Username req"
proof -
  from run changed obtain req where body: "body = Bound req"
    by (cases body) (auto simp: Register_def)
  from run changed body obtain hp where
    hp: "HashPassword (eks lib) (rand env) (RegisterRequest.Password req) = Inr hp"
    by (cases "HashPassword (eks lib) (rand env) (RegisterRequest.Password req)")
       (auto simp: Register_def)
  show ?thesis
  proof (cases "postgresDB h")
    case (Some rows)
    with run body hp have
      "Register_postgres lib env h (GetString c ''language'') req hp rows = (h', reply)"
      by (simp add: Register_def)
    from Register_postgres_changes [OF Some this changed] body hp show ?thesis by blast
  next
    case None
    with run changed body hp obtain docs where docs: "mongoDB h = Some docs"
      by (cases "mongoDB h") (auto simp: Register_def)
    with run body hp None have
      "Register_mongo lib env h (GetString c ''language'') req hp docs = (h', reply)"
      by (simp add: Register_def)
    from Register_mongo_changes [OF None docs this changed] body hp show ?thesis by blast
  qed
qed

text \<open>
  So a registration whose existence query ran keeps the e-mail addresses, and the user
  names, of the stored users free of duplicates.
\<close>

lemma Register_keeps_distinct:
  assumes run: "Register lib env h c body = (h', reply)"
    and check: "\<not> dberr env 0"
  shows "(distinct (emails h) \<longrightarrow> distinct (emails h')) \<and>
         (distinct (usernames h) \<longrightarrow> distinct (usernames h'))"
proof (cases "h' = h")
  case True
  then show ?thesis by simp
next
  case False
  from Register_changes [OF run False] obtain req :: RegisterRequest and hp new where
    pre: "dberr env 0 \<or>
          \<not> taken h (RegisterRequest.Email req) (RegisterRequest.Username req)"
    and st: "stored_users h' = stored_users h @ [(new, hp, None)]"
    and new: "UserInfo.Email new = RegisterRequest.Email req"
      "UserInfo.Username new = RegisterRequest.Username req"
    by blast
  from pre check have
    free: "\<not> taken h (RegisterRequest.Email req) (RegisterRequest.Username req)"
    by simp
  from st new have "emails h' = emails h @ [RegisterRequest.Email req]"
    "usernames h' = usernames h @ [RegisterRequest.Username req]"
    by (simp_all add: emails_def usernames_def)
  with free show ?thesis by (simp add: taken_iff)
qed

lemma hash_example:
  "HashPassword (eks example_lib) (rand example_env) ''secret1'' =
     Inr (Hashed DefaultCost ''salt'' (bcrypt_key ''secret1''))"
  by (simp add: HashPassword_def GenerateFromPassword_def example_lib_def example_env_def
        bcrypt_def)

lemma first_registration:
  "\<exists>h1 r. Register example_lib example_env relational Map.empty (Bound ann) =
              (h1, JSON StatusCreated r)"
  by (simp add: Register_def Register_postgres_def pg_First_def pg_Create_def Let_def
        HashPassword_def GenerateFromPassword_def ann_def relational_def alice_def bob_def
        visible_def example_env_def GenerateToken_def example_lib_def)

text \<open>
  Claim C2, as amended. Take a registration request that passed validation.

  \<^item> When its e-mail address or user name belongs to a stored user, its password has been
    hashed and the existence query ran, the handler answers 409 and stays as it was:
    nothing is inserted. In particular, after a registration that created a user, a
    second request with the same e-mail address, whatever its user name, is answered
    409 and leaves the stored users as the first one left them.
  \<^item> When the password cannot be hashed, the handler answers 500 and stays as it was,
    whether or not the address is taken: hashing comes before the existence query.
  \<^item> When the existence query ends in an error, the handler never answers 409: it goes
    on to the insert, and when the store accepts the insert the user of the request is
    stored beside the one that has its address or name.
  \<^item> Whatever the request, the handler changes only by the insert of the user of the
    request, made after the existence query returned no user (because there is none, or
    because the query ended in an error); and a registration whose existence query ran
    leaves the e-mail addresses, and the user names, of the stored users without
    duplicates when they had none.
\<close>

theorem Register_conflict:
  "(\<forall>hp. taken h (RegisterRequest.Email req) (RegisterRequest.Username req) \<and>
         HashPassword (eks lib) (rand env) (RegisterRequest.Password req) = Inr hp \<and>
         \<not> dberr env 0 \<longrightarrow>
         Register lib env h c (Bound req) =
           (h, JSON StatusConflict
                 (ErrorResponse (Get (localizer h) (GetString c ''language'') ''email_exists'')
                    ''User already exists''))) \<and>
   (\<forall>hp env0 h0 c0 req0 r0.
         Register lib env0 h0 c0 (Bound req0) = (h, JSON StatusCreated r0) \<and>
         RegisterRequest.Email req0 = RegisterRequest.Email req \<and>
         HashPassword (eks lib) (rand env) (RegisterRequest.Password req) = Inr hp \<and>
         \<not> dberr env 0 \<longrightarrow>
         Register lib env h c (Bound req) =
           (h, JSON StatusConflict
                 (ErrorResponse (Get (localizer h) (GetString c ''language'') ''email_exists'')
                    ''User already exists''))) \<and>
   (\<forall>err. HashPassword (eks lib) (rand env) (RegisterRequest.Password req) = Inl err \<longrightarrow>
         Register lib env h c (Bound req) =
           (h, JSON StatusInternalServerError
                 (ErrorResponse (Get (localizer h) (GetString c ''language'') ''internal_error'')
                    ''Failed to process password''))) \<and>
   (\<forall>hp r. HashPassword (eks lib) (rand env) (RegisterRequest.Password req) = Inr hp \<and>
         dberr env 0 \<longrightarrow>
         snd (Register lib env h c (Bound req)) \<noteq> JSON StatusConflict r) \<and>
   (\<forall>hp. taken h (RegisterRequest.Email req) (RegisterRequest.Username req) \<and>
         HashPassword (eks lib) (rand env) (RegisterRequest.Password req) = Inr hp \<and>
         dberr env 0 \<and> \<not> dberr env 1 \<and>
         IStr (Hex (newObjectID env)) \<notin>
           set (map (\<lambda>s. UserInfo.ID (fst s)) (stored_users h)) \<longrightarrow>
         (\<exists>h' r new. Register lib env h c (Bound req) = (h', r) \<and>
            stored_users h' = stored_users h @ [(new, hp, None)] \<and>
            UserInfo.Email new = RegisterRequest.Email req \<and>
            UserInfo.Username new = RegisterRequest.Username req)) \<and>
   (\<forall>body h' reply. Register lib env h c body = (h', reply) \<and> h' \<noteq> h \<longrightarrow>
         (\<exists>req' hp new. body = Bound req' \<and>
            HashPassword (eks lib) (rand env) (RegisterRequest.Password req') = Inr hp \<and>
            (dberr env 0 \<or>
             \<not> taken h (RegisterRequest.Email req') (RegisterRequest.Username req')) \<and>
            \<not> dberr env 1 \<and>
            stored_users h' = stored_users h @ [(new, hp, None)] \<and>
            UserInfo.Email new = RegisterRequest.Email req' \<and>
            UserInfo.Username new = RegisterRequest.Username req')) \<and>
   (\<forall>body h' reply. Register lib env h c body = (h', reply) \<and> \<not> dberr env 0 \<longrightarrow>
         (distinct (emails h) \<longrightarrow> distinct (emails h')) \<and>
         (distinct (usernames h) \<longrightarrow> distinct (usernames h')))"
proof (intro conjI allI impI)
  fix hp
  assume "taken h (RegisterRequest.Email req) (RegisterRequest.Username req) \<and>
         HashPassword (eks lib) (rand env) (RegisterRequest.Password req) = Inr hp \<and>
         \<not> dberr env 0"
  then show "Register lib env h c (Bound req) =
           (h, JSON StatusConflict
                 (ErrorResponse (Get (localizer h) (GetString c ''language'') ''email_exists'')
                    ''User already exists''))"
    using Register_conflict_taken by blast
next
  fix hp env0 h0 c0 req0 r0
  assume first: "Register lib env0 h0 c0 (Bound req0) = (h, JSON StatusCreated r0) \<and>
         RegisterRequest.Email req0 = RegisterRequest.Email req \<and>
         HashPassword (eks lib) (rand env) (RegisterRequest.Password req) = Inr hp \<and>
         \<not> dberr env 0"
  then have "taken h (RegisterRequest.Email req0) (RegisterRequest.Username req)"
    using Register_created_taken by blast
  with first have "taken h (RegisterRequest.Email req) (RegisterRequest.Username req)"
    by simp
  with first show "Register lib env h c (Bound req) =
           (h, JSON StatusConflict
                 (ErrorResponse (Get (localizer h) (GetString c ''language'') ''email_exists'')
                    ''User already exists''))"
    using Register_conflict_taken by blast
next
  fix err
  assume "HashPassword (eks lib) (rand env) (RegisterRequest.Password req) = Inl err"
  then show "Register lib env h c (Bound req) =
           (h, JSON StatusInternalServerError
                 (ErrorResponse (Get (localizer h) (GetString c ''language'') ''internal_error'')
                    ''Failed to process password''))"
    by (rule Register_hash_fails)
next
  fix hp r
  assume "HashPassword (eks lib) (rand env) (RegisterRequest.Password req) = Inr hp \<and>
         dberr env 0"
  then show "snd (Register lib env h c (Bound req)) \<noteq> JSON StatusConflict r"
    using Register_check_fails_never_conflict by blast
next
  fix hp
  assume "taken h (RegisterRequest.Email req) (RegisterRequest.Username req) \<and>
         HashPassword (eks lib) (rand env) (RegisterRequest.Password req) = Inr hp \<and>
         dberr env 0 \<and> \<not> dberr env 1 \<and>
         IStr (Hex (newObjectID env)) \<notin>
           set (map (\<lambda>s. UserInfo.ID (fst s)) (stored_users h))"
  then show "\<exists>h' r new. Register lib env h c (Bound req) = (h', r) \<and>
            stored_users h' = stored_users h @ [(new, hp, None)] \<and>
            UserInfo.Email new = RegisterRequest.Email req \<and>
            UserInfo.Username new = RegisterRequest.Username req"
    using Register_check_fails_inserts [of lib env req hp h c] by blast
next
  fix body h' reply
  assume "Register lib env h c body = (h', reply) \<and> h' \<noteq> h"
  then show "\<exists>req' hp new. body = Bound req' \<and>
            HashPassword (eks lib) (rand env) (RegisterRequest.Password req') = Inr hp \<and>
            (dberr env 0 \<or>
             \<not> taken h (RegisterRequest.Email req') (RegisterRequest.Username req')) \<and>
            \<not> dberr env 1 \<and>
            stored_users h' = stored_users h @ [(new, hp, None)] \<and>
            UserInfo.Email new = RegisterRequest.Email req' \<and>
            UserInfo.Username new = RegisterRequest.Username req'"
    using Register_changes [of lib env h c body h' reply] by blast
next
  fix body h' reply
  assume run: "Register lib env h c body = (h', reply) \<and> \<not> dberr env 0"
    and d: "distinct (emails h)"
  from run have "Register lib env h c body = (h', reply)" "\<not> dberr env 0" by simp_all
  from Register_keeps_distinct [OF this] d show "distinct (emails h')" by blast
next
  fix body h' reply
  assume run: "Register lib env h c body = (h', reply) \<and> \<not> dberr env 0"
    and d: "distinct (usernames h)"
  from run have "Register lib env h c body = (h', reply)" "\<not> dberr env 0" by simp_all
  from Register_keeps_distinct [OF this] d show "distinct (usernames h')" by blast
qed

text \<open>
  The theorem at work: Ann registers with the relational backend and is created, and the
  e-mail addresses of the stored users are still without duplicates; the same e-mail
  address under another user name is then answered 409 and the handler stays as her
  registration left it.
\<close>

theorem Register_conflict_witness:
  "\<exists>h1 r. Register example_lib example_env relational Map.empty (Bound ann) =
              (h1, JSON StatusCreated r) \<and>
          distinct (emails h1) \<and>
          Register example_lib example_env h1 Map.empty
            (Bound (ann\<lparr>RegisterRequest.Username := ''ann2''\<rparr>)) =
              (h1, JSON StatusConflict
                     (ErrorResponse
                        (Get (localizer h1) (GetString Map.empty ''language'') ''email_exists'')
                        ''User already exists''))"
proof -
  obtain h1 r where first:
    "Register example_lib example_env relational Map.empty (Bound ann) =
       (h1, JSON StatusCreated r)"
    using first_registration by blast
  have env: "\<not> dberr example_env 0"
    by (simp add: example_env_def)
  have same: "RegisterRequest.Email ann =
      RegisterRequest.Email (ann\<lparr>RegisterRequest.Username := ''ann2''\<rparr>)"
    by simp
  have hash: "HashPassword (eks example_lib) (rand example_env)
      (RegisterRequest.Password (ann\<lparr>RegisterRequest.Username := ''ann2''\<rparr>)) =
      Inr (Hashed DefaultCost ''salt'' (bcrypt_key ''secret1''))"
    using hash_example by (simp add: ann_def)
  have before: "distinct (emails relational)"
    by (simp add: emails_def stored_users_def relational_def userInfo_def alice_def bob_def)
  note second = Register_conflict [of h1 "ann\<lparr>RegisterRequest.Username := ''ann2''\<rparr>"
      example_lib example_env Map.empty, THEN conjunct2, THEN conjunct1, rule_format,
      OF conjI [OF first conjI [OF same conjI [OF hash env]]]]
  have "distinct (emails h1)"
    using Register_conflict [of relational ann example_lib example_env Map.empty]
      first env before by blast
  with first second show ?thesis by blast
qed

text \<open>
  Claim C2 as stated fails: a request whose e-mail address belongs to a stored user is
  not always answered 409. Alice is stored in the relational example. A request with her
  address and a password of 73 bytes passes validation and is answered 500, whatever the
  primitives and the environment; and when the existence query ends in an error and the
  store accepts the insert, a request with her address is answered 201 and her address is
  stored twice.
\<close>

theorem Register_taken_email_not_conflict:
  "taken relational ''alice@example.com'' ''ann'' \<and>
   (\<forall>lib env. Register lib env relational Map.empty
       (Bound (ann\<lparr>RegisterRequest.Email := ''alice@example.com'',
                    RegisterRequest.Password := replicate 73 (CHR ''x'')\<rparr>)) =
       (relational,
        JSON StatusInternalServerError
          (ErrorResponse ''internal_error'' ''Failed to process password''))) \<and>
   (\<exists>h' r. Register example_lib (example_env\<lparr>dberr := (\<lambda>k. k = 0)\<rparr>) relational Map.empty
       (Bound (ann\<lparr>RegisterRequest.Email := ''alice@example.com''\<rparr>)) =
       (h', JSON StatusCreated r) \<and>
       emails h' = [''alice@example.com'', ''bob@example.com'', ''alice@example.com''])"
proof (intro conjI allI)
  show "taken relational ''alice@example.com'' ''ann''"
    by (simp add: taken_def relational_def alice_def visible_def)
next
  fix lib env
  show "Register lib env relational Map.empty
       (Bound (ann\<lparr>RegisterRequest.Email := ''alice@example.com'',
                    RegisterRequest.Password := replicate 73 (CHR ''x'')\<rparr>)) =
       (relational,
        JSON StatusInternalServerError
          (ErrorResponse ''internal_error'' ''Failed to process password''))"
    by (simp add: Register_def HashPassword_def GenerateFromPassword_def ann_def
          relational_def example_localizer_def Get_def GetString_def)
next
  show "\<exists>h' r. Register example_lib (example_env\<lparr>dberr := (\<lambda>k. k = 0)\<rparr>) relational Map.empty
       (Bound (ann\<lparr>RegisterRequest.Email := ''alice@example.com''\<rparr>)) =
       (h', JSON StatusCreated r) \<and>
       emails h' = [''alice@example.com'', ''bob@example.com'', ''alice@example.com'']"
    by (simp add: Register_def Register_postgres_def pg_First_def pg_Create_def Let_def
          HashPassword_def GenerateFromPassword_def ann_def relational_def alice_def bob_def
          example_env_def GenerateToken_def example_lib_def emails_def stored_users_def
          userInfo_def)
qed

section \<open>Login failures\<close>

lemma bcrypt_key_hd: "p \<noteq> [] \<Longrightarrow> hd (bcrypt_key p) = hd p"
proof -
  assume "p \<noteq> []"
  then obtain x xs where p: "p = x # xs" by (cases p) auto
  have "replicate 72 (p @ [CHR 0x00]) = (p @ [CHR 0x00]) # replicate 71 (p @ [CHR 0x00])"
    by (simp add: numeral_eq_Suc)
  then show ?thesis by (simp add: bcrypt_key_def p numeral_eq_Suc)
qed

lemma Login_postgres_unknown:
  "find (\<lambda>u. visible u \<and> User.Email u = LoginRequest.Email req) rows = None \<Longrightarrow>
   Login_postgres lib env h lang req rows =
     JSON StatusUnauthorized
       (ErrorResponse (Get (localizer h) lang ''invalid_credentials'') ''Authentication failed'')"
  by (simp add: Login_postgres_def pg_First_def)

lemma Login_postgres_wrong:
  "find (\<lambda>u. visible u \<and> User.Email u = LoginRequest.Email req) rows = Some u \<Longrightarrow>
   VerifyPassword (eks lib) (User.Password u) (LoginRequest.Password req) \<noteq> None \<Longrightarrow>
   Login_postgres lib env h lang req rows =
     JSON StatusUnauthorized
       (ErrorResponse (Get (localizer h) lang ''invalid_credentials'') ''Authentication failed'')"
  by (auto simp: Login_postgres_def pg_First_def)

lemma Login_mongo_unknown:
  "find (\<lambda>d. UserMongo.Email d = LoginRequest.Email req) docs = None \<Longrightarrow>
   Login_mongo lib env h lang req docs =
     JSON StatusUnauthorized
       (ErrorResponse (Get (localizer h) lang ''invalid_credentials'') ''Authentication failed'')"
  by (simp add: Login_mongo_def mongo_FindOne_def)

lemma Login_mongo_wrong:
  "find (\<lambda>d. UserMongo.Email d = LoginRequest.Email req) docs = Some d \<Longrightarrow>
   VerifyPassword (eks lib) (UserMongo.Password d) (LoginRequest.Password req) \<noteq> None \<Longrightarrow>
   Login_mongo lib env h lang req docs =
     JSON StatusUnauthorized
       (ErrorResponse (Get (localizer h) lang ''invalid_credentials'') ''Authentication failed'')"
  by (auto simp: Login_mongo_def mongo_FindOne_def)

text \<open>
  Claim C3. Take two login requests to the same handler, in the same language: the
  e-mail address of the first belongs to no stored user; the e-mail address of the second
  belongs to a stored user whose hash the password of the request does not verify
  against. Both get status 401 and the same envelope: success flag false, the
  localized message for invalid credentials, and the error text
  \<^verbatim>\<open>Authentication failed\<close>.
\<close>

theorem Login_unknown_email_or_wrong_password:
  assumes "postgresDB h \<noteq> None \<or> mongoDB h \<noteq> None"
    and "stored_password h (LoginRequest.Email r1) = None"
    and "stored_password h (LoginRequest.Email r2) = Some hp"
    and "VerifyPassword (eks lib) hp (LoginRequest.Password r2) \<noteq> None"
  shows "Login lib env1 h c (Bound r1) =
           JSON StatusUnauthorized
             (ErrorResponse
                (Get (localizer h) (GetString c ''language'') ''invalid_credentials'')
                ''Authentication failed'') \<and>
         Login lib env2 h c (Bound r2) =
           JSON StatusUnauthorized
             (ErrorResponse
                (Get (localizer h) (GetString c ''language'') ''invalid_credentials'')
                ''Authentication failed'')"
proof (cases "postgresDB h")
  case (Some rows)
  from assms(2) Some have
    "find (\<lambda>u. visible u \<and> User.Email u = LoginRequest.Email r1) rows = None"
    by (simp add: stored_password_def)
  moreover from assms(3) Some obtain u where
    "find (\<lambda>u. visible u \<and> User.Email u = LoginRequest.Email r2) rows = Some u"
    and "User.Password u = hp"
    by (auto simp: stored_password_def)
  ultimately show ?thesis
    using Some assms(4)
    by (simp add: Login_def Let_def Login_postgres_unknown Login_postgres_wrong)
next
  case None
  with assms(1) obtain docs where docs: "mongoDB h = Some docs" by auto
  from assms(2) None docs have
    "find (\<lambda>d. UserMongo.Email d = LoginRequest.Email r1) docs = None"
    by (simp add: stored_password_def)
  moreover from assms(3) None docs obtain d where
    "find (\<lambda>d. UserMongo.Email d = LoginRequest.Email r2) docs = Some d"
    and "UserMongo.Password d = hp"
    by (auto simp: stored_password_def)
  ultimately show ?thesis
    using None docs assms(4)
    by (simp add: Login_def Let_def Login_mongo_unknown Login_mongo_wrong)
qed

text \<open>
  The theorem at work on the relational example: an address nobody has, and Alice's
  address with a password that is not hers.
\<close>

theorem Login_unknown_email_or_wrong_password_witness:
  "Login example_lib example_env relational Map.empty
     (Bound \<lparr>LoginRequest.Email = ''nobody@example.com'',
              LoginRequest.Password = ''wonderland''\<rparr>) =
     JSON StatusUnauthorized (ErrorResponse ''invalid_credentials'' ''Authentication failed'') \<and>
   Login example_lib example_env relational Map.empty
     (Bound \<lparr>LoginRequest.Email = ''alice@example.com'',
              LoginRequest.Password = ''letmein1''\<rparr>) =
     JSON StatusUnauthorized (ErrorResponse ''invalid_credentials'' ''Authentication failed'')"
proof -
  have a: "postgresDB relational \<noteq> None \<or> mongoDB relational \<noteq> None"
    by (simp add: relational_def)
  have b: "stored_password relational (LoginRequest.Email
      \<lparr>LoginRequest.Email = ''nobody@example.com'',
       LoginRequest.Password = ''wonderland''\<rparr>) = None"
    by (simp add: stored_password_def relational_def alice_def bob_def visible_def)
  have c: "stored_password relational (LoginRequest.Email
      \<lparr>LoginRequest.Email = ''alice@example.com'', LoginRequest.Password = ''letmein1''\<rparr>) =
      Some (Hashed 10 ''salt'' (bcrypt_key ''wonderland''))"
    by (simp add: stored_password_def relational_def alice_def bob_def visible_def)
  have "hd (bcrypt_key ''letmein1'') \<noteq> hd (bcrypt_key ''wonderland'')"
    by (simp add: bcrypt_key_hd)
  then have "bcrypt_key ''letmein1'' \<noteq> bcrypt_key ''wonderland''"
    by metis
  then have d: "VerifyPassword (eks example_lib)
      (Hashed 10 ''salt'' (bcrypt_key ''wonderland''))
      (LoginRequest.Password
        \<lparr>LoginRequest.Email = ''alice@example.com'',
         LoginRequest.Password = ''letmein1''\<rparr>) \<noteq> None"
    by (simp add: VerifyPassword_def CompareHashAndPassword_def bcrypt_def example_lib_def)
  show ?thesis
    using Login_unknown_email_or_wrong_password [OF a b c d, of example_env Map.empty example_env]
    by (simp add: relational_def example_localizer_def Get_def GetString_def)
qed

section \<open>Profile lookup by the identity of the token\<close>

lemma alice_logs_in:
  "Login example_lib example_env relational Map.empty
     (Bound \<lparr>LoginRequest.Email = ''alice@example.com'',
              LoginRequest.Password = ''wonderland''\<rparr>) =
   JSON StatusOK
     (SuccessResponse ''login_successful''
        (AuthData \<lparr>AuthResponse.Token = alice_token, AuthResponse.User = userInfo alice,
                    AuthResponse.ExpiresAt = 1000 + 24 * Hour\<rparr>))"
  by (simp add: Login_def Login_postgres_def pg_First_def VerifyPassword_def
        CompareHashAndPassword_def bcrypt_def GenerateToken_def Let_def relational_def
        alice_def bob_def visible_def example_lib_def example_env_def example_localizer_def
        Get_def GetString_def alice_token_def)

text \<open>
  When \<^verbatim>\<open>user_id\<close> holds a string, both branches look the caller up by it: the
  document branch by the ObjectID it spells, the relational branch by the number it
  spells, with 404 when the lookup finds nothing and 200 with the public fields of the
  user found otherwise.
\<close>

lemma GetProfile_document:
  assumes "postgresDB h = None" and "mongoDB h = Some docs"
    and "ObjectIDFromHex (GetString c ''user_id'') = Inr objectID"
    and "\<not> dberr env 0"
  shows "GetProfile env h c =
           (case find (\<lambda>d. UserMongo.ID d = objectID) docs of
              None \<Rightarrow>
                JSON StatusNotFound
                  (ErrorResponse
                     (Get (localizer h) (GetString c ''language'') ''user_not_found'')
                     ''User not found'')
            | Some user \<Rightarrow>
                JSON StatusOK
                  (SuccessResponse ''Profile retrieved successfully''
                     (UserData (userInfoMongo user))))"
  using assms
  by (simp add: GetProfile_def mongo_FindOne_def Let_def split: option.splits)

lemma GetProfile_relational:
  assumes "postgresDB h = Some rows"
    and "ParseUint (GetString c ''user_id'') 32 = (n, None)"
    and "\<not> dberr env 0"
  shows "GetProfile env h c =
           (case find (\<lambda>u. visible u \<and> User.ID u = n) rows of
              None \<Rightarrow>
                JSON StatusNotFound
                  (ErrorResponse
                     (Get (localizer h) (GetString c ''language'') ''user_not_found'')
                     ''User not found'')
            | Some user \<Rightarrow>
                JSON StatusOK
                  (SuccessResponse ''Profile retrieved successfully''
                     (UserData (userInfo user))))"
  using assms
  by (simp add: GetProfile_def pg_First_def Let_def split: option.splits)

text \<open>
  Claim C1 fails on the relational backend. The tokens of that backend carry the user's
  key as a number; the middleware puts it under \<^verbatim>\<open>user_id\<close> as it is, \<^verbatim>\<open>GetString\<close> reads
  a value that is not a string as the empty string, and \<^verbatim>\<open>ParseUint\<close> turns that into
  key 0. So for every verified token with a numeric identity the handler looks up key
  0 whoever the caller is, and answers 404 when no row has that key, also when the
  caller's own row exists.
\<close>

theorem GetProfile_numeric_identity:
  assumes "postgresDB h = Some rows"
    and "JWTAuth sign now secret (Bearer tok) c0 = Next c"
    and "ValidateToken sign now secret tok = Inr claims"
    and "Claims.UserID claims = INum n"
    and "\<not> list_ex (\<lambda>u. visible u \<and> User.ID u = 0) rows"
  shows "GetProfile env h c =
           JSON StatusNotFound
             (ErrorResponse (Get (localizer h) (GetString c0 ''language'') ''user_not_found'')
                ''User not found'')"
proof -
  from assms(2,3,4) have id: "GetString c ''user_id'' = []"
    and lang: "GetString c ''language'' = GetString c0 ''language''"
    by (auto simp: JWTAuth_def GetString_def)
  from assms(5) have "find (\<lambda>u. visible u \<and> User.ID u = 0) rows = None"
    by (induction rows) auto
  with assms(1) id lang show ?thesis
    by (simp add: GetProfile_def ParseUint_def pg_First_def Let_def)
qed

text \<open>
  The theorem at work: Alice, stored under key 1, logs in and receives her token; the
  middleware accepts it and sets \<^verbatim>\<open>user_id\<close> to the number 1; her profile request is
  answered 404, although the lookup of key 1 finds her.
\<close>

theorem GetProfile_numeric_identity_witness:
  "Login example_lib example_env relational Map.empty
     (Bound \<lparr>LoginRequest.Email = ''alice@example.com'',
              LoginRequest.Password = ''wonderland''\<rparr>) =
   JSON StatusOK
     (SuccessResponse ''login_successful''
        (AuthData \<lparr>AuthResponse.Token = alice_token, AuthResponse.User = userInfo alice,
                    AuthResponse.ExpiresAt = 1000 + 24 * Hour\<rparr>)) \<and>
   (\<exists>c. JWTAuth (hs256 example_lib) 2000 ''secret'' (Bearer alice_token) Map.empty = Next c \<and>
        c ''user_id'' = Some (INum 1) \<and>
        GetProfile example_env relational c =
          JSON StatusNotFound (ErrorResponse ''user_not_found'' ''User not found'')) \<and>
   pg_First False (\<lambda>u. User.ID u = 1) [alice, bob] = Inr alice"
proof -
  let ?claims = "\<lparr>Claims.UserID = INum 1, Claims.Email = ''alice@example.com'',
               Claims.Username = ''alice'', Claims.Role = ''user'',
               Claims.ExpiresAt = Some (1000 + 24 * Hour), Claims.IssuedAt = Some 1000,
               Claims.NotBefore = Some 1000\<rparr>"
  let ?c = "[''user_id'' \<mapsto> INum 1, ''user_email'' \<mapsto> IStr ''alice@example.com'',
            ''user_username'' \<mapsto> IStr ''alice'', ''user_role'' \<mapsto> IStr ''user'']"
  have valid: "ValidateToken (hs256 example_lib) 2000 ''secret'' alice_token = Inr ?claims"
    by (simp add: ValidateToken_def ParseWithClaims_def alice_token_def example_lib_def Hour_def)
  then have auth:
    "JWTAuth (hs256 example_lib) 2000 ''secret'' (Bearer alice_token) Map.empty = Next ?c"
    by (simp add: JWTAuth_def)
  have db: "postgresDB relational = Some [alice, bob]"
    by (simp add: relational_def)
  have no0: "\<not> list_ex (\<lambda>u. visible u \<and> User.ID u = 0) [alice, bob]"
    by (simp add: alice_def bob_def)
  have "GetProfile example_env relational ?c =
          JSON StatusNotFound (ErrorResponse ''user_not_found'' ''User not found'')"
    using GetProfile_numeric_identity [OF db auth valid _ no0, of 1 example_env]
    by (simp add: relational_def example_localizer_def Get_def GetString_def)
  moreover have "pg_First False (\<lambda>u. User.ID u = 1) [alice, bob] = Inr alice"
    by (simp add: pg_First_def alice_def bob_def visible_def)
  ultimately show ?thesis using alice_logs_in auth by simp
qed

section \<open>Pagination\<close>

text \<open>
  Within the range of Go's integers the list handler does what claim C5 says: the total
  is the number of selected users, the page count is the least number of pages of the
  given size that hold them all, and the rows are the slice of the ordered selection at
  offset \<open>(page - 1) * pageSize\<close>, of length at most \<open>pageSize\<close>; 25 users give 5 rows,
  total 25 and 3 pages for page 3 of size 10.
\<close>

lemma wrap64_id: "- (2 ^ 63) \<le> x \<Longrightarrow> x < 2 ^ 63 \<Longrightarrow> wrap64 x = x"
  by (simp add: wrap64_def)

lemma quo_nonneg: "0 \<le> a \<Longrightarrow> 0 < b \<Longrightarrow> quo a b = a div b"
  by (cases "a = 0") (simp_all add: quo_def)

lemma far_offset: "wrap64 (wrap64 (PaginationQuery.Page far_page - 1) * PaginationQuery.PageSize far_page) = 0"
  by (simp add: far_page_def wrap64_def)

lemma TotalPage_2_4: "TotalPage_of 2 4 = 1"
  by (simp add: TotalPage_of_def wrap64_def quo_def)

lemma TotalPage_of_in_range:
  assumes "0 \<le> n" and "1 \<le> s" and "n + s < 2 ^ 63"
  shows "TotalPage_of n s = (n + s - 1) div s"
proof -
  have a: "wrap64 (n + s) = n + s" using assms by (intro wrap64_id) auto
  have b: "wrap64 (n + s - 1) = n + s - 1" using assms by (intro wrap64_id) auto
  have c: "quo (n + s - 1) s = (n + s - 1) div s" using assms by (intro quo_nonneg) auto
  have lo: "0 \<le> (n + s - 1) div s" using assms by (simp add: pos_imp_zdiv_nonneg_iff)
  have "(n + s - 1) div s \<le> (n + s - 1) div 1"
    using assms by (intro zdiv_mono2) auto
  then have hi: "(n + s - 1) div s < 2 ^ 63" using assms by simp
  have d: "wrap64 ((n + s - 1) div s) = (n + s - 1) div s"
    using lo hi by (intro wrap64_id) auto
  show ?thesis by (simp add: TotalPage_of_def a b c d)
qed

lemma ceiling_div:
  assumes "0 \<le> (n::int)" and "1 \<le> s"
  shows "n \<le> ((n + s - 1) div s) * s \<and> ((n + s - 1) div s - 1) * s < n"
proof -
  define k where "k = (n + s - 1) div s"
  have pos: "0 < s" using assms by simp
  have eq: "n + s - 1 = k * s + (n + s - 1) mod s" by (simp add: k_def)
  have m1: "(n + s - 1) mod s < s" using pos by simp
  have m2: "0 \<le> (n + s - 1) mod s" using pos by simp
  from eq m1 have up: "n \<le> k * s" by linarith
  from eq m2 have "k * s \<le> n + s - 1" by linarith
  then have "(k - 1) * s < n" by (simp add: left_diff_distrib)
  with up show ?thesis by (simp add: k_def)
qed

lemma offset_in_range:
  assumes "1 \<le> p" and "1 \<le> s" and "(p - 1) * s < 2 ^ 63"
  shows "wrap64 (wrap64 (p - 1) * s) = (p - 1) * s"
proof -
  have le: "p - 1 \<le> (p - 1) * s" using assms by (simp add: mult_le_cancel_left1)
  have "- (2 ^ 63) \<le> p - 1" using assms by simp
  moreover have "p - 1 < 2 ^ 63" using le assms by linarith
  ultimately have w1: "wrap64 (p - 1) = p - 1" by (rule wrap64_id)
  have "0 \<le> (p - 1) * s" using assms by simp
  then have "- (2 ^ 63) \<le> (p - 1) * s" by (rule order_trans [rotated]) simp
  then have "wrap64 ((p - 1) * s) = (p - 1) * s" using assms(3) by (rule wrap64_id)
  with w1 show ?thesis by simp
qed

lemma TotalPage_of_is_ceiling:
  assumes "0 \<le> n" and "1 \<le> s" and "n + s < 2 ^ 63"
  shows "n \<le> TotalPage_of n s * s \<and> (TotalPage_of n s - 1) * s < n"
  using ceiling_div [OF assms(1,2)] TotalPage_of_in_range [OF assms] by simp

lemma GetUsers_postgres_in_range:
  assumes "postgresDB h = Some rows"
    and "1 \<le> PaginationQuery.Page q" and "1 \<le> PaginationQuery.PageSize q"
    and "(PaginationQuery.Page q - 1) * PaginationQuery.PageSize q < 2 ^ 63"
    and "int (length rows) + PaginationQuery.PageSize q < 2 ^ 63"
    and "\<not> dberr env 0" and "\<not> dberr env 1"
    and "selected =
           (if PaginationQuery.Search q \<noteq> []
            then filter (\<lambda>u. visible u \<and>
                    search_postgres (ilike lib) (''%'' @ PaginationQuery.Search q @ ''%'') u) rows
            else filter visible rows)"
    and "order_by lib (if PaginationQuery.Sort q \<noteq> [] then PaginationQuery.Sort q
                       else ''created_at DESC'') selected = Some ordered"
  shows "GetUsers lib env h c (Bound q) =
           JSON StatusOK
             (SuccessResponse ''Users retrieved successfully''
                (PageData
                   (PaginatedResponse
                      (map userInfo
                         (take (nat (PaginationQuery.PageSize q))
                            (drop (nat ((PaginationQuery.Page q - 1) * PaginationQuery.PageSize q))
                               ordered)))
                      \<lparr>Pagination.Page = PaginationQuery.Page q,
                       Pagination.PageSize = PaginationQuery.PageSize q,
                       Pagination.Total = int (length selected),
                       Pagination.TotalPage =
                         (int (length selected) + PaginationQuery.PageSize q - 1) div
                           PaginationQuery.PageSize q\<rparr>)))"
proof -
  have off: "wrap64 (wrap64 (PaginationQuery.Page q - 1) * PaginationQuery.PageSize q) =
      (PaginationQuery.Page q - 1) * PaginationQuery.PageSize q"
    using assms(2,3,4) by (rule offset_in_range)
  have "length selected \<le> length rows" by (simp add: assms(8))
  then have "int (length selected) + PaginationQuery.PageSize q < 2 ^ 63"
    using assms(5) by linarith
  then have tp: "TotalPage_of (int (length selected)) (PaginationQuery.PageSize q) =
      (int (length selected) + PaginationQuery.PageSize q - 1) div PaginationQuery.PageSize q"
    using assms(3) by (intro TotalPage_of_in_range) auto
  have dr: "pg_Offset ((PaginationQuery.Page q - 1) * PaginationQuery.PageSize q) ordered =
      drop (nat ((PaginationQuery.Page q - 1) * PaginationQuery.PageSize q)) ordered"
    by (simp add: pg_Offset_def)
  have sel: "(if PaginationQuery.Search q \<noteq> []
            then filter (\<lambda>u. visible u \<and>
                    search_postgres (ilike lib) (''%'' @ PaginationQuery.Search q @ ''%'') u) rows
            else filter visible rows) = selected"
    by (simp add: assms(8))
  show ?thesis
    using assms(1,3,6,7,9)
    by (simp add: GetUsers_def GetUsers_postgres_def Let_def sel off tp pg_Find_def dr
          pg_Limit_def)
qed

lemma GetUsers_mongo_in_range:
  assumes "postgresDB h = None" and "mongoDB h = Some docs"
    and "1 \<le> PaginationQuery.Page q" and "1 \<le> PaginationQuery.PageSize q"
    and "(PaginationQuery.Page q - 1) * PaginationQuery.PageSize q < 2 ^ 63"
    and "int (length docs) + PaginationQuery.PageSize q < 2 ^ 63"
    and "\<not> dberr env 0" and "\<not> dberr env 1" and "\<not> dberr env 2"
    and "selected =
           (if PaginationQuery.Search q \<noteq> []
            then filter (search_mongo (regex lib) (PaginationQuery.Search q)) docs
            else docs)"
  shows "GetUsers lib env h c (Bound q) =
           JSON StatusOK
             (SuccessResponse ''Users retrieved successfully''
                (PageData
                   (PaginatedResponse
                      (map userInfoMongo
                         (take (nat (PaginationQuery.PageSize q))
                            (drop (nat ((PaginationQuery.Page q - 1) * PaginationQuery.PageSize q))
                               selected)))
                      \<lparr>Pagination.Page = PaginationQuery.Page q,
                       Pagination.PageSize = PaginationQuery.PageSize q,
                       Pagination.Total = int (length selected),
                       Pagination.TotalPage =
                         (int (length selected) + PaginationQuery.PageSize q - 1) div
                           PaginationQuery.PageSize q\<rparr>)))"
proof -
  have off: "wrap64 (wrap64 (PaginationQuery.Page q - 1) * PaginationQuery.PageSize q) =
      (PaginationQuery.Page q - 1) * PaginationQuery.PageSize q"
    using assms(3,4,5) by (rule offset_in_range)
  have nonneg: "0 \<le> (PaginationQuery.Page q - 1) * PaginationQuery.PageSize q"
    using assms(3,4) by simp
  have "length selected \<le> length docs" by (simp add: assms(10))
  then have "int (length selected) + PaginationQuery.PageSize q < 2 ^ 63"
    using assms(6) by linarith
  then have tp: "TotalPage_of (int (length selected)) (PaginationQuery.PageSize q) =
      (int (length selected) + PaginationQuery.PageSize q - 1) div PaginationQuery.PageSize q"
    using assms(4) by (intro TotalPage_of_in_range) auto
  have lim: "\<And>xs::UserMongo list. mongo_Limit (PaginationQuery.PageSize q) xs =
      take (nat (PaginationQuery.PageSize q)) xs"
    using assms(4) by (simp add: mongo_Limit_def)
  show ?thesis
  proof (cases "PaginationQuery.Search q \<noteq> []")
    case True
    then have sel: "selected = filter (search_mongo (regex lib) (PaginationQuery.Search q)) docs"
      by (simp add: assms(10))
    show ?thesis
      using assms(1,2,4,7,8,9) True nonneg
      by (simp add: GetUsers_def GetUsers_mongo_def Let_def off mongo_CountDocuments_def
            mongo_Find_def cursor_All_def lim sel tp [unfolded sel])
  next
    case False
    then have sel: "selected = docs" by (simp add: assms(10))
    show ?thesis
      using assms(1,2,4,7,8,9) False nonneg
      by (simp add: GetUsers_def GetUsers_mongo_def Let_def off mongo_CountDocuments_def
            mongo_Find_def cursor_All_def lim sel tp [unfolded sel])
  qed
qed

lemma GetUsers_25_users_page_3:
  assumes "postgresDB h = Some rows" and "length rows = 25" and "list_all visible rows"
  shows "GetUsers example_lib example_env h c
           (Bound \<lparr>PaginationQuery.Page = 3, PaginationQuery.PageSize = 10,
                    PaginationQuery.Sort = [], PaginationQuery.Search = []\<rparr>) =
         JSON StatusOK
           (SuccessResponse ''Users retrieved successfully''
              (PageData
                 (PaginatedResponse (map userInfo (drop 20 rows))
                    \<lparr>Pagination.Page = 3, Pagination.PageSize = 10, Pagination.Total = 25,
                     Pagination.TotalPage = 3\<rparr>))) \<and>
         length (drop 20 rows) = 5"
proof -
  have vis: "filter visible rows = rows"
    using assms(3) by (simp add: list_all_iff)
  show ?thesis
    using GetUsers_postgres_in_range [of h rows
        "\<lparr>PaginationQuery.Page = 3, PaginationQuery.PageSize = 10,
          PaginationQuery.Sort = [], PaginationQuery.Search = []\<rparr>"
        example_env rows example_lib rows c] assms(1,2)
    by (simp add: vis example_lib_def example_env_def)
qed

text \<open>
  Claim C5 fails for page numbers whose offset leaves the range of a 64-bit integer.
  For page \<open>2 ^ 62 + 1\<close> of size 4 the product \<open>(page - 1) * pageSize\<close> is \<open>2 ^ 64\<close>,
  which wraps around to 0: both backends answer 200 with the first users as the rows
  of that page, where the slice at offset \<open>2 ^ 64\<close> is empty.
\<close>

theorem GetUsers_far_page_wraps:
  "GetUsers example_lib example_env relational Map.empty (Bound far_page) =
     JSON StatusOK
       (SuccessResponse ''Users retrieved successfully''
          (PageData
             (PaginatedResponse [userInfo alice, userInfo bob]
                \<lparr>Pagination.Page = 2 ^ 62 + 1, Pagination.PageSize = 4,
                 Pagination.Total = 2, Pagination.TotalPage = 1\<rparr>))) \<and>
   GetUsers example_lib example_env document Map.empty (Bound far_page) =
     JSON StatusOK
       (SuccessResponse ''Users retrieved successfully''
          (PageData
             (PaginatedResponse [userInfoMongo carol, userInfoMongo dave]
                \<lparr>Pagination.Page = 2 ^ 62 + 1, Pagination.PageSize = 4,
                 Pagination.Total = 2, Pagination.TotalPage = 1\<rparr>))) \<and>
   (PaginationQuery.Page far_page - 1) * PaginationQuery.PageSize far_page = 2 ^ 64 \<and>
   take 4 (drop (2 ^ 64) [alice, bob]) = []"
proof -
  have pg: "GetUsers example_lib example_env relational Map.empty (Bound far_page) =
     JSON StatusOK
       (SuccessResponse ''Users retrieved successfully''
          (PageData
             (PaginatedResponse [userInfo alice, userInfo bob]
                \<lparr>Pagination.Page = 2 ^ 62 + 1, Pagination.PageSize = 4,
                 Pagination.Total = 2, Pagination.TotalPage = 1\<rparr>)))"
    using far_offset TotalPage_2_4
    by (simp add: GetUsers_def GetUsers_postgres_def pg_Find_def pg_Offset_def pg_Limit_def
          Let_def relational_def example_lib_def example_env_def visible_def alice_def bob_def
          far_page_def)
  have mongo: "GetUsers example_lib example_env document Map.empty (Bound far_page) =
     JSON StatusOK
       (SuccessResponse ''Users retrieved successfully''
          (PageData
             (PaginatedResponse [userInfoMongo carol, userInfoMongo dave]
                \<lparr>Pagination.Page = 2 ^ 62 + 1, Pagination.PageSize = 4,
                 Pagination.Total = 2, Pagination.TotalPage = 1\<rparr>)))"
    using far_offset TotalPage_2_4
    by (simp add: GetUsers_def GetUsers_mongo_def mongo_CountDocuments_def mongo_Find_def
          mongo_Limit_def cursor_All_def Let_def document_def example_lib_def example_env_def
          far_page_def)
  have "(PaginationQuery.Page far_page - 1) * PaginationQuery.PageSize far_page = 2 ^ 64"
    by (simp add: far_page_def)
  moreover have "take 4 (drop (2 ^ 64) [alice, bob]) = []"
    by simp
  ultimately show ?thesis using pg mongo by simp
qed

section \<open>Profile updates\<close>

subsection \<open>What an update does to the stored users\<close>

lemma find_first_index:
  "find P xs = Some x \<Longrightarrow> \<exists>i<length xs. xs ! i = x \<and> P x"
  by (auto simp: find_Some_iff)

lemma map_replace_by_key:
  assumes "distinct (map key xs)" and "i < length xs" and "Q (xs ! i)"
  shows "map (\<lambda>r. if key r = key (xs ! i) \<and> Q r then y else r) xs = xs[i := y]"
proof (rule nth_equalityI)
  show "length (map (\<lambda>r. if key r = key (xs ! i) \<and> Q r then y else r) xs) = length (xs[i := y])"
    by simp
next
  fix j assume "j < length (map (\<lambda>r. if key r = key (xs ! i) \<and> Q r then y else r) xs)"
  then have j: "j < length xs" by simp
  show "map (\<lambda>r. if key r = key (xs ! i) \<and> Q r then y else r) xs ! j = xs[i := y] ! j"
  proof (cases "j = i")
    case True
    with assms j show ?thesis by simp
  next
    case False
    have "key (xs ! j) \<noteq> key (xs ! i)"
      using assms(1,2) j False nth_eq_iff_index_eq [of "map key xs" j i] by simp
    with j False show ?thesis by simp
  qed
qed

lemma update_first_index:
  assumes "\<And>x. P (f x) = P x"
  shows "find P (update_first P f xs) = Some y \<Longrightarrow>
         \<exists>i<length xs. P (xs ! i) \<and> y = f (xs ! i) \<and> update_first P f xs = xs[i := f (xs ! i)]"
proof (induction xs)
  case Nil
  then show ?case by simp
next
  case (Cons x xs)
  show ?case
  proof (cases "P x")
    case True
    with Cons.prems assms have "y = f x" by simp
    with True show ?thesis by (intro exI [of _ 0]) simp
  next
    case False
    with Cons.prems have "find P (update_first P f xs) = Some y" by simp
    with Cons.IH obtain i where "i < length xs" "P (xs ! i)" "y = f (xs ! i)"
      "update_first P f xs = xs[i := f (xs ! i)]" by blast
    with False show ?thesis by (intro exI [of _ "Suc i"]) simp
  qed
qed

lemma update_first_unchanged_or_index:
  "update_first P f xs = xs \<or>
   (\<exists>i<length xs. P (xs ! i) \<and> update_first P f xs = xs[i := f (xs ! i)])"
proof (induction xs)
  case Nil
  then show ?case by simp
next
  case (Cons x xs)
  show ?case
  proof (cases "P x")
    case True
    then have "0 < length (x # xs) \<and> P ((x # xs) ! 0) \<and>
        update_first P f (x # xs) = (x # xs)[0 := f ((x # xs) ! 0)]" by simp
    then show ?thesis by blast
  next
    case False
    from Cons.IH show ?thesis
    proof
      assume "update_first P f xs = xs"
      with False show ?thesis by simp
    next
      assume "\<exists>i<length xs. P (xs ! i) \<and> update_first P f xs = xs[i := f (xs ! i)]"
      then obtain i where "i < length xs" "P (xs ! i)"
        "update_first P f xs = xs[i := f (xs ! i)]" by blast
      with False have "Suc i < length (x # xs) \<and> P ((x # xs) ! Suc i) \<and>
        update_first P f (x # xs) = (x # xs)[Suc i := f ((x # xs) ! Suc i)]" by simp
      then show ?thesis by blast
    qed
  qed
qed

lemma fold_assign_view:
  assumes "U = [Set_updated_at t] @
       (if UpdateUserRequest.FirstName req \<noteq> []
        then [Set_first_name (UpdateUserRequest.FirstName req)] else []) @
       (if UpdateUserRequest.LastName req \<noteq> []
        then [Set_last_name (UpdateUserRequest.LastName req)] else []) @
       (if UpdateUserRequest.Email req \<noteq> []
        then [Set_email (UpdateUserRequest.Email req)] else [])"
  shows "userInfoMongo (fold assign U d) = spec_update req t (userInfoMongo d)"
    and "UserMongo.Password (fold assign U d) = UserMongo.Password d"
    and "UserMongo.ID (fold assign U d) = UserMongo.ID d"
  by (simp_all add: assms userInfoMongo_def spec_update_def)

lemma patch_User_view:
  fixes found :: User and req :: UpdateUserRequest and t :: time
  defines "user1 \<equiv> (if UpdateUserRequest.FirstName req \<noteq> []
                      then found\<lparr>User.FirstName := UpdateUserRequest.FirstName req\<rparr>
                      else found)"
  defines "user2 \<equiv> (if UpdateUserRequest.LastName req \<noteq> []
                      then user1\<lparr>User.LastName := UpdateUserRequest.LastName req\<rparr>
                      else user1)"
  defines "user3 \<equiv> (if UpdateUserRequest.Email req \<noteq> []
                      then user2\<lparr>User.Email := UpdateUserRequest.Email req\<rparr>
                      else user2)"
  shows "userInfo (user3\<lparr>User.UpdatedAt := t\<rparr>) = spec_update req t (userInfo found)"
    and "User.Password (user3\<lparr>User.UpdatedAt := t\<rparr>) = User.Password found"
    and "User.DeletedAt (user3\<lparr>User.UpdatedAt := t\<rparr>) = User.DeletedAt found"
    and "User.ID (user3\<lparr>User.UpdatedAt := t\<rparr>) = User.ID found"
  by (simp_all add: user1_def user2_def user3_def userInfo_def spec_update_def)

lemma UpdateProfile_postgres_ok:
  assumes db: "postgresDB h = Some rows"
    and pk: "distinct (map User.ID rows)"
    and ok: "UpdateProfile env h c (Bound req) = (h', JSON StatusOK r)"
  shows "\<exists>i u'. i < length rows \<and> visible (rows ! i) \<and>
           User.ID (rows ! i) = fst (ParseUint (GetString c ''user_id'') 32) \<and>
           userInfo u' = spec_update req (clock env 0) (userInfo (rows ! i)) \<and>
           User.Password u' = User.Password (rows ! i) \<and>
           User.DeletedAt u' = User.DeletedAt (rows ! i) \<and>
           h' = h\<lparr>postgresDB := Some (rows[i := u'])\<rparr> \<and>
           r = SuccessResponse (Get (localizer h) (GetString c ''language'') ''user_updated'')
                 (UserData (userInfo u'))"
proof -
  let ?id = "fst (ParseUint (GetString c ''user_id'') 32)"
  from ok db obtain found where
    found: "pg_First (dberr env 0) (\<lambda>u. User.ID u = ?id) rows = Inr found"
    by (auto simp: UpdateProfile_def UpdateProfile_postgres_def Let_def split: sum.splits)
  then have "find (\<lambda>u. visible u \<and> User.ID u = ?id) rows = Some found"
    by (auto simp: pg_First_def split: if_splits option.splits)
  then obtain i where i: "i < length rows" "rows ! i = found" "visible found" "User.ID found = ?id"
    using find_first_index [of "\<lambda>u. visible u \<and> User.ID u = ?id" rows found] by auto
  define user1 where "user1 = (if UpdateUserRequest.FirstName req \<noteq> []
                      then found\<lparr>User.FirstName := UpdateUserRequest.FirstName req\<rparr>
                      else found)"
  define user2 where "user2 = (if UpdateUserRequest.LastName req \<noteq> []
                      then user1\<lparr>User.LastName := UpdateUserRequest.LastName req\<rparr>
                      else user1)"
  define user3 where "user3 = (if UpdateUserRequest.Email req \<noteq> []
                      then user2\<lparr>User.Email := UpdateUserRequest.Email req\<rparr>
                      else user2)"
  define user where "user = user3\<lparr>User.UpdatedAt := clock env 0\<rparr>"
  have view: "userInfo user = spec_update req (clock env 0) (userInfo found)"
    "User.Password user = User.Password found" "User.DeletedAt user = User.DeletedAt found"
    "User.ID user = User.ID found"
    unfolding user_def user3_def user2_def user1_def by (rule patch_User_view)+
  from ok db found have saved:
    "pg_Save (dberr env 1) user rows = Inr (the (postgresDB h'))"
    "h' = h\<lparr>postgresDB := postgresDB h'\<rparr>"
    "r = SuccessResponse (Get (localizer h) (GetString c ''language'') ''user_updated'')
           (UserData (userInfo user))"
    by (auto simp: UpdateProfile_def UpdateProfile_postgres_def Let_def user_def user3_def
          user2_def user1_def split: sum.splits)
  from saved(1) have "the (postgresDB h') =
      map (\<lambda>r. if User.ID r = User.ID user \<and> visible r then user else r) rows"
    by (auto simp: pg_Save_def split: if_splits)
  also have "\<dots> = rows[i := user]"
    using map_replace_by_key [of User.ID rows i visible user] pk i view(4) by simp
  finally have rows': "the (postgresDB h') = rows[i := user]" .
  from saved(1) ok db found have "postgresDB h' \<noteq> None"
    by (auto simp: UpdateProfile_def UpdateProfile_postgres_def Let_def split: sum.splits)
  with rows' have "postgresDB h' = Some (rows[i := user])" by auto
  with saved(2) have "h' = h\<lparr>postgresDB := Some (rows[i := user])\<rparr>" by simp
  with i view saved(3) show ?thesis by blast
qed

lemma UpdateProfile_mongo_steps:
  assumes "postgresDB h = None" and "mongoDB h = Some docs"
    and "U = [Set_updated_at (clock env 0)] @
       (if UpdateUserRequest.FirstName req \<noteq> []
        then [Set_first_name (UpdateUserRequest.FirstName req)] else []) @
       (if UpdateUserRequest.LastName req \<noteq> []
        then [Set_last_name (UpdateUserRequest.LastName req)] else []) @
       (if UpdateUserRequest.Email req \<noteq> []
        then [Set_email (UpdateUserRequest.Email req)] else [])"
  shows "UpdateProfile env h c (Bound req) =
     (case ObjectIDFromHex (GetString c ''user_id'') of
        Inl err \<Rightarrow>
          (h, JSON StatusBadRequest
                (ErrorResponse (Get (localizer h) (GetString c ''language'') ''bad_request'')
                   ''Invalid user ID format''))
      | Inr objectID \<Rightarrow>
          (case mongo_UpdateOne (dberr env 0) (\<lambda>d. UserMongo.ID d = objectID) U docs of
             Inl err \<Rightarrow>
               (h, JSON StatusInternalServerError
                     (ErrorResponse
                        (Get (localizer h) (GetString c ''language'') ''internal_error'')
                        ''Failed to update profile''))
           | Inr docs' \<Rightarrow>
               (case mongo_FindOne (dberr env 1) (\<lambda>d. UserMongo.ID d = objectID) docs' of
                  Inl err \<Rightarrow>
                    (h\<lparr>mongoDB := Some docs'\<rparr>,
                     JSON StatusInternalServerError
                       (ErrorResponse
                          (Get (localizer h) (GetString c ''language'') ''internal_error'')
                          ''Failed to retrieve updated profile''))
                | Inr user \<Rightarrow>
                    (h\<lparr>mongoDB := Some docs'\<rparr>,
                     JSON StatusOK
                       (SuccessResponse
                          (Get (localizer h) (GetString c ''language'') ''user_updated'')
                          (UserData (userInfoMongo user)))))))"
  using assms(1,2) unfolding assms(3) UpdateProfile_def UpdateProfile_mongo_def Let_def
  by simp

lemma UpdateProfile_mongo_changed:
  assumes none: "postgresDB h = None" and db: "mongoDB h = Some docs"
    and run: "UpdateProfile env h c (Bound req) = (h', reply)"
    and changed: "h' \<noteq> h"
  shows "\<exists>i d' oid. i < length docs \<and>
           ObjectIDFromHex (GetString c ''user_id'') = Inr oid \<and>
           UserMongo.ID (docs ! i) = oid \<and>
           userInfoMongo d' = spec_update req (clock env 0) (userInfoMongo (docs ! i)) \<and>
           UserMongo.Password d' = UserMongo.Password (docs ! i) \<and>
           h' = h\<lparr>mongoDB := Some (docs[i := d'])\<rparr>"
proof -
  define U where "U = [Set_updated_at (clock env 0)] @
       (if UpdateUserRequest.FirstName req \<noteq> []
        then [Set_first_name (UpdateUserRequest.FirstName req)] else []) @
       (if UpdateUserRequest.LastName req \<noteq> []
        then [Set_last_name (UpdateUserRequest.LastName req)] else []) @
       (if UpdateUserRequest.Email req \<noteq> []
        then [Set_email (UpdateUserRequest.Email req)] else [])"
  note steps = run [unfolded UpdateProfile_mongo_steps [OF none db U_def]]
  from steps changed obtain oid where
    oid: "ObjectIDFromHex (GetString c ''user_id'') = Inr oid"
    by (auto split: sum.splits)
  let ?docs' = "update_first (\<lambda>d. UserMongo.ID d = oid) (\<lambda>d. fold assign U d) docs"
  from steps changed oid have h': "h' = h\<lparr>mongoDB := Some ?docs'\<rparr>"
    by (auto simp: mongo_UpdateOne_def split: sum.splits if_splits)
  have "?docs' \<noteq> docs"
  proof
    assume "?docs' = docs"
    with h' db have "h' = h" by simp
    with changed show False by simp
  qed
  with update_first_unchanged_or_index [of "\<lambda>d. UserMongo.ID d = oid"
      "\<lambda>d. fold assign U d" docs]
  obtain i where i: "i < length docs" "UserMongo.ID (docs ! i) = oid"
    "?docs' = docs[i := fold assign U (docs ! i)]"
    by auto
  have "userInfoMongo (fold assign U (docs ! i)) =
      spec_update req (clock env 0) (userInfoMongo (docs ! i))"
    by (rule fold_assign_view [OF U_def])
  moreover have "UserMongo.Password (fold assign U (docs ! i)) =
      UserMongo.Password (docs ! i)"
    by (rule fold_assign_view [OF U_def])
  ultimately show ?thesis using i oid h' by metis
qed

lemma UpdateProfile_mongo_ok:
  assumes none: "postgresDB h = None" and db: "mongoDB h = Some docs"
    and ok: "UpdateProfile env h c (Bound req) = (h', JSON StatusOK r)"
  shows "\<exists>i d' oid. i < length docs \<and>
           ObjectIDFromHex (GetString c ''user_id'') = Inr oid \<and>
           UserMongo.ID (docs ! i) = oid \<and>
           userInfoMongo d' = spec_update req (clock env 0) (userInfoMongo (docs ! i)) \<and>
           UserMongo.Password d' = UserMongo.Password (docs ! i) \<and>
           h' = h\<lparr>mongoDB := Some (docs[i := d'])\<rparr> \<and>
           r = SuccessResponse (Get (localizer h) (GetString c ''language'') ''user_updated'')
                 (UserData (userInfoMongo d'))"
proof -
  define U where "U = [Set_updated_at (clock env 0)] @
       (if UpdateUserRequest.FirstName req \<noteq> []
        then [Set_first_name (UpdateUserRequest.FirstName req)] else []) @
       (if UpdateUserRequest.LastName req \<noteq> []
        then [Set_last_name (UpdateUserRequest.LastName req)] else []) @
       (if UpdateUserRequest.Email req \<noteq> []
        then [Set_email (UpdateUserRequest.Email req)] else [])"
  note steps = ok [unfolded UpdateProfile_mongo_steps [OF none db U_def]]
  from steps obtain oid where
    oid: "ObjectIDFromHex (GetString c ''user_id'') = Inr oid"
    by (auto split: sum.splits)
  let ?P = "\<lambda>d. UserMongo.ID d = oid"
  let ?f = "\<lambda>d. fold assign U d"
  let ?docs' = "update_first ?P ?f docs"
  from steps oid have h': "h' = h\<lparr>mongoDB := Some ?docs'\<rparr>"
    by (auto simp: mongo_UpdateOne_def split: sum.splits if_splits)
  from steps oid obtain user where
    user: "mongo_FindOne (dberr env 1) ?P ?docs' = Inr user"
    and r: "r = SuccessResponse (Get (localizer h) (GetString c ''language'') ''user_updated'')
                 (UserData (userInfoMongo user))"
    by (auto simp: mongo_UpdateOne_def split: sum.splits if_splits)
  from user have "find ?P ?docs' = Some user"
    by (auto simp: mongo_FindOne_def split: if_splits option.splits)
  moreover have "\<And>x. ?P (?f x) = ?P x"
    by (simp only: fold_assign_view(3) [OF U_def])
  ultimately obtain i where i: "i < length docs" "?P (docs ! i)" "user = ?f (docs ! i)"
    "?docs' = docs[i := ?f (docs ! i)]"
    using update_first_index [of ?P ?f docs user] by blast
  have "userInfoMongo (?f (docs ! i)) =
      spec_update req (clock env 0) (userInfoMongo (docs ! i))"
    by (rule fold_assign_view [OF U_def])
  moreover have "UserMongo.Password (?f (docs ! i)) = UserMongo.Password (docs ! i)"
    by (rule fold_assign_view [OF U_def])
  ultimately show ?thesis using i oid h' r by metis
qed

lemma primary_key_postgres:
  assumes "postgresDB h = Some rows"
    and "distinct (map (\<lambda>s. UserInfo.ID (fst s)) (stored_users h))"
  shows "distinct (map User.ID rows)"
proof -
  have "map (\<lambda>s. UserInfo.ID (fst s)) (stored_users h) = map INum (map User.ID rows)"
    by (simp add: stored_users_postgres [OF assms(1)] userInfo_def)
  with assms(2) have "distinct (map INum (map User.ID rows))" by metis
  then show ?thesis using distinct_map [of INum "map User.ID rows"] by blast
qed

lemma UpdateProfile_ok:
  assumes ok: "UpdateProfile env h c (Bound req) = (h', JSON StatusOK r)"
    and pk: "distinct (map (\<lambda>s. UserInfo.ID (fst s)) (stored_users h))"
  shows "\<exists>i info hash. i < length (stored_users h) \<and>
           stored_users h ! i = (info, hash, None) \<and>
           caller h c = Some (UserInfo.ID info) \<and>
           stored_users h' = (stored_users h)[i := (spec_update req (clock env 0) info, hash, None)] \<and>
           r = SuccessResponse (Get (localizer h) (GetString c ''language'') ''user_updated'')
                 (UserData (spec_update req (clock env 0) info))"
proof (cases "postgresDB h")
  case (Some rows)
  from UpdateProfile_postgres_ok [OF Some primary_key_postgres [OF Some pk] ok]
  obtain i u' where i: "i < length rows" "visible (rows ! i)"
    "User.ID (rows ! i) = fst (ParseUint (GetString c ''user_id'') 32)"
    "userInfo u' = spec_update req (clock env 0) (userInfo (rows ! i))"
    "User.Password u' = User.Password (rows ! i)"
    "User.DeletedAt u' = User.DeletedAt (rows ! i)"
    "h' = h\<lparr>postgresDB := Some (rows[i := u'])\<rparr>"
    "r = SuccessResponse (Get (localizer h) (GetString c ''language'') ''user_updated'')
           (UserData (userInfo u'))"
    by blast
  have a: "i < length (stored_users h)"
    using i(1) by (simp add: stored_users_postgres [OF Some])
  have b: "stored_users h ! i = (userInfo (rows ! i), User.Password (rows ! i), None)"
    using i(1,2) by (simp add: stored_users_postgres [OF Some] visible_def)
  have c: "caller h c = Some (UserInfo.ID (userInfo (rows ! i)))"
    using i(3) Some by (simp add: caller_def userInfo_def)
  have "stored_users h' =
      map (\<lambda>u. (userInfo u, User.Password u, User.DeletedAt u)) (rows[i := u'])"
    using i(7) by (simp add: stored_users_def)
  then have d: "stored_users h' = (stored_users h)
      [i := (spec_update req (clock env 0) (userInfo (rows ! i)), User.Password (rows ! i), None)]"
    using i(2,4,5,6) by (simp add: map_update stored_users_postgres [OF Some] visible_def)
  from a b c d i(4,8) show ?thesis by metis
next
  case None
  from ok None obtain docs where docs: "mongoDB h = Some docs"
    by (cases "mongoDB h") (auto simp: UpdateProfile_def Let_def)
  from UpdateProfile_mongo_ok [OF None docs ok]
  obtain i d' oid where i: "i < length docs"
    "ObjectIDFromHex (GetString c ''user_id'') = Inr oid"
    "UserMongo.ID (docs ! i) = oid"
    "userInfoMongo d' = spec_update req (clock env 0) (userInfoMongo (docs ! i))"
    "UserMongo.Password d' = UserMongo.Password (docs ! i)"
    "h' = h\<lparr>mongoDB := Some (docs[i := d'])\<rparr>"
    "r = SuccessResponse (Get (localizer h) (GetString c ''language'') ''user_updated'')
           (UserData (userInfoMongo d'))"
    by blast
  have a: "i < length (stored_users h)"
    using i(1) by (simp add: stored_users_mongo [OF None docs])
  have b: "stored_users h ! i = (userInfoMongo (docs ! i), UserMongo.Password (docs ! i), None)"
    using i(1) by (simp add: stored_users_mongo [OF None docs])
  have c: "caller h c = Some (UserInfo.ID (userInfoMongo (docs ! i)))"
    using i(2,3) None docs by (simp add: caller_def userInfoMongo_def)
  have "stored_users h' =
      map (\<lambda>d. (userInfoMongo d, UserMongo.Password d, None)) (docs[i := d'])"
    using i(6) None by (simp add: stored_users_def)
  then have d: "stored_users h' = (stored_users h)
      [i := (spec_update req (clock env 0) (userInfoMongo (docs ! i)),
             UserMongo.Password (docs ! i), None)]"
    using i(4,5) by (simp add: map_update stored_users_mongo [OF None docs])
  from a b c d i(4,7) show ?thesis by metis
qed

lemma UpdateProfile_postgres_changed:
  assumes "postgresDB h = Some rows" and "UpdateProfile env h c body = (h', reply)"
    and "h' \<noteq> h"
  shows "\<exists>req r. body = Bound req \<and> reply = JSON StatusOK r"
  using assms
  by (auto simp: UpdateProfile_def UpdateProfile_postgres_def Let_def
        split: binding.splits sum.splits)

lemma UpdateProfile_any:
  assumes run: "UpdateProfile env h c body = (h', reply)"
    and pk: "distinct (map (\<lambda>s. UserInfo.ID (fst s)) (stored_users h))"
  shows "stored_users h' = stored_users h \<or>
         (\<exists>req i info hash deleted. body = Bound req \<and> i < length (stored_users h) \<and>
            stored_users h ! i = (info, hash, deleted) \<and>
            stored_users h' =
              (stored_users h)[i := (spec_update req (clock env 0) info, hash, deleted)])"
proof (cases "h' = h")
  case True
  then show ?thesis by simp
next
  case False
  show ?thesis
  proof (cases "postgresDB h")
    case (Some rows)
    from UpdateProfile_postgres_changed [OF Some run False]
    obtain req r where "body = Bound req" "reply = JSON StatusOK r" by blast
    with run UpdateProfile_ok [OF _ pk, of env c req h' r] show ?thesis by blast
  next
    case None
    from run None False obtain docs req where docs: "mongoDB h = Some docs"
      and body: "body = Bound req"
      by (cases "mongoDB h"; cases body) (auto simp: UpdateProfile_def Let_def)
    from UpdateProfile_mongo_changed [OF None docs run [unfolded body] False]
    obtain i d' where i: "i < length docs"
      "userInfoMongo d' = spec_update req (clock env 0) (userInfoMongo (docs ! i))"
      "UserMongo.Password d' = UserMongo.Password (docs ! i)"
      "h' = h\<lparr>mongoDB := Some (docs[i := d'])\<rparr>"
      by blast
    have a: "i < length (stored_users h)"
      using i(1) by (simp add: stored_users_mongo [OF None docs])
    have b: "stored_users h ! i = (userInfoMongo (docs ! i), UserMongo.Password (docs ! i), None)"
      using i(1) by (simp add: stored_users_mongo [OF None docs])
    have "stored_users h' =
        map (\<lambda>d. (userInfoMongo d, UserMongo.Password d, None)) (docs[i := d'])"
      using i(4) None by (simp add: stored_users_def)
    then have "stored_users h' = (stored_users h)
        [i := (spec_update req (clock env 0) (userInfoMongo (docs ! i)),
               UserMongo.Password (docs ! i), None)]"
      using i(2,3) by (simp add: map_update stored_users_mongo [OF None docs])
    with a b body show ?thesis by blast
  qed
qed

subsection \<open>When an update goes through\<close>

lemma list_ex_nth: "i < length xs \<Longrightarrow> P (xs ! i) \<Longrightarrow> list_ex P xs"
  by (auto simp: list_ex_iff)

lemma list_ex_update_first:
  assumes "\<And>x. P (f x) = P x"
  shows "list_ex P xs \<Longrightarrow> list_ex P (update_first P f xs)"
  by (induction xs) (auto simp: assms)

lemma UpdateProfile_reaches_ok:
  assumes i: "i < length (stored_users h)"
    and at: "stored_users h ! i = (a, ha, None)"
    and who: "caller h c = Some (UserInfo.ID a)"
    and e0: "\<not> dberr env 0" and e1: "\<not> dberr env 1"
  shows "\<exists>h' r. UpdateProfile env h c (Bound req) = (h', JSON StatusOK r)"
proof (cases "postgresDB h")
  case (Some rows)
  let ?id = "fst (ParseUint (GetString c ''user_id'') 32)"
  from i at have "i < length rows" "visible (rows ! i)" "a = userInfo (rows ! i)"
    by (auto simp: stored_users_postgres [OF Some] visible_def)
  moreover from who Some have "UserInfo.ID a = INum ?id"
    by (simp add: caller_def)
  ultimately have "i < length rows" "visible (rows ! i) \<and> User.ID (rows ! i) = ?id"
    by (auto simp: userInfo_def)
  then have "list_ex (\<lambda>u. visible u \<and> User.ID u = ?id) rows"
    by (rule list_ex_nth)
  then obtain found where "find (\<lambda>u. visible u \<and> User.ID u = ?id) rows = Some found"
    using find_Some_ex by blast
  with Some e0 e1 show ?thesis
    by (simp add: UpdateProfile_def UpdateProfile_postgres_def Let_def pg_First_def pg_Save_def)
next
  case None
  from i None obtain docs where docs: "mongoDB h = Some docs"
    by (cases "mongoDB h") (auto simp: stored_users_def)
  from who None docs obtain oid where
    oid: "ObjectIDFromHex (GetString c ''user_id'') = Inr oid" "UserInfo.ID a = IStr (Hex oid)"
    by (auto simp: caller_def split: sum.splits)
  from i at have "i < length docs" "a = userInfoMongo (docs ! i)"
    by (auto simp: stored_users_mongo [OF None docs])
  with oid(2) have "i < length docs" "UserMongo.ID (docs ! i) = oid"
    by (auto simp: userInfoMongo_def Hex_def)
  then have ex: "list_ex (\<lambda>d. UserMongo.ID d = oid) docs"
    by (rule list_ex_nth)
  define U where "U = [Set_updated_at (clock env 0)] @
       (if UpdateUserRequest.FirstName req \<noteq> []
        then [Set_first_name (UpdateUserRequest.FirstName req)] else []) @
       (if UpdateUserRequest.LastName req \<noteq> []
        then [Set_last_name (UpdateUserRequest.LastName req)] else []) @
       (if UpdateUserRequest.Email req \<noteq> []
        then [Set_email (UpdateUserRequest.Email req)] else [])"
  have "\<And>x. (UserMongo.ID (fold assign U x) = oid) = (UserMongo.ID x = oid)"
    by (simp only: fold_assign_view(3) [OF U_def])
  from list_ex_update_first [of "\<lambda>d. UserMongo.ID d = oid" "\<lambda>d. fold assign U d", OF this ex]
  obtain user where "find (\<lambda>d. UserMongo.ID d = oid)
      (update_first (\<lambda>d. UserMongo.ID d = oid) (\<lambda>d. fold assign U d) docs) = Some user"
    using find_Some_ex by blast
  with oid(1) e0 e1 show ?thesis
    unfolding UpdateProfile_mongo_steps [OF None docs U_def]
    by (simp add: mongo_UpdateOne_def mongo_FindOne_def)
qed

text \<open>
  A caller that the handler finds among the stored users, with a backend that accepts
  the calls, is answered 200, and the stored users are as before but for the caller,
  who has been updated as the specification describes.
\<close>

lemma UpdateProfile_applies:
  assumes i: "i < length (stored_users h)"
    and at: "stored_users h ! i = (a, ha, None)"
    and who: "caller h c = Some (UserInfo.ID a)"
    and e0: "\<not> dberr env 0" and e1: "\<not> dberr env 1"
    and pk: "distinct (map (\<lambda>s. UserInfo.ID (fst s)) (stored_users h))"
  shows "\<exists>h'. UpdateProfile env h c (Bound req) =
           (h', JSON StatusOK
                  (SuccessResponse
                     (Get (localizer h) (GetString c ''language'') ''user_updated'')
                     (UserData (spec_update req (clock env 0) a)))) \<and>
           stored_users h' =
             (stored_users h)[i := (spec_update req (clock env 0) a, ha, None)]"
proof -
  from UpdateProfile_reaches_ok [OF i at who e0 e1, of req]
  obtain h' r where ok: "UpdateProfile env h c (Bound req) = (h', JSON StatusOK r)" by blast
  from UpdateProfile_ok [OF ok pk]
  obtain k info hash where k: "k < length (stored_users h)"
    "stored_users h ! k = (info, hash, None)" "caller h c = Some (UserInfo.ID info)"
    "stored_users h' = (stored_users h)[k := (spec_update req (clock env 0) info, hash, None)]"
    "r = SuccessResponse (Get (localizer h) (GetString c ''language'') ''user_updated'')
           (UserData (spec_update req (clock env 0) info))"
    by blast
  from k(3) who have same: "UserInfo.ID info = UserInfo.ID a" by simp
  have "k = i"
    using pk nth_eq_iff_index_eq [of "map (\<lambda>s. UserInfo.ID (fst s)) (stored_users h)" k i]
      k(1,2) i at same by simp
  with k(2) at have "info = a" "hash = ha" by simp_all
  with ok k(4,5) \<open>k = i\<close> show ?thesis by simp
qed

subsection \<open>Identifiers of the examples\<close>

lemma parse_1: "ParseUint ''1'' 32 = (1, None)"
  by (simp add: ParseUint_def is_digit_def decimal_def)

lemma carol_hex:
  "ObjectIDFromHex ''507f191e810c19729de860ea'' = Inr ''507f191e810c19729de860ea''"
  by (simp add: ObjectIDFromHex_def is_hex_def lower_hex_def)

subsection \<open>The fields an update changes\<close>

lemma frame_spec_update:
  "(\<lambda>(info, hash, deleted).
        (UserInfo.ID info, UserInfo.Username info, hash, UserInfo.Role info,
         UserInfo.IsActive info, UserInfo.CreatedAt info, deleted))
     (spec_update req t info, hash, deleted) =
   (\<lambda>(info, hash, deleted).
        (UserInfo.ID info, UserInfo.Username info, hash, UserInfo.Role info,
         UserInfo.IsActive info, UserInfo.CreatedAt info, deleted))
     (info, hash, deleted)"
  by (simp add: spec_update_def)

text \<open>
  The stored users are taken with unique identifiers. Whatever the request and the
  reply, an update leaves the identifier, user name, password hash, role, active flag,
  creation time and deletion time of every stored user as they were, and changes at
  most one stored user, by the update the specification describes: of first name, last
  name and e-mail address only those supplied non-empty are replaced, an empty one stays
  at its prior value, and the update time is set to the clock. When the reply is 200
  that user is the one the handler looked up for the caller, the update has been
  applied, and the reply carries the updated public fields.
\<close>

lemma UpdateProfile_frame:
  assumes "UpdateProfile env h c body = (h', reply)"
    and "distinct (map (\<lambda>s. UserInfo.ID (fst s)) (stored_users h))"
  shows "map (\<lambda>(info, hash, deleted).
                (UserInfo.ID info, UserInfo.Username info, hash, UserInfo.Role info,
                 UserInfo.IsActive info, UserInfo.CreatedAt info, deleted))
           (stored_users h') =
         map (\<lambda>(info, hash, deleted).
                (UserInfo.ID info, UserInfo.Username info, hash, UserInfo.Role info,
                 UserInfo.IsActive info, UserInfo.CreatedAt info, deleted))
           (stored_users h) \<and>
         (stored_users h' = stored_users h \<or>
          (\<exists>req i info hash deleted. body = Bound req \<and> i < length (stored_users h) \<and>
             stored_users h ! i = (info, hash, deleted) \<and>
             stored_users h' =
               (stored_users h)[i := (spec_update req (clock env 0) info, hash, deleted)])) \<and>
         (\<forall>req r. body = Bound req \<and> reply = JSON StatusOK r \<longrightarrow>
            (\<exists>i info hash. i < length (stored_users h) \<and>
               stored_users h ! i = (info, hash, None) \<and>
               caller h c = Some (UserInfo.ID info) \<and>
               stored_users h' =
                 (stored_users h)[i := (spec_update req (clock env 0) info, hash, None)] \<and>
               r = SuccessResponse
                     (Get (localizer h) (GetString c ''language'') ''user_updated'')
                     (UserData (spec_update req (clock env 0) info))))"
proof (intro conjI allI impI)
  let ?frame = "\<lambda>(info, hash, deleted).
        (UserInfo.ID info, UserInfo.Username info, hash, UserInfo.Role info,
         UserInfo.IsActive info, UserInfo.CreatedAt info, deleted)"
  from UpdateProfile_any [OF assms]
  show any: "stored_users h' = stored_users h \<or>
          (\<exists>req i info hash deleted. body = Bound req \<and> i < length (stored_users h) \<and>
             stored_users h ! i = (info, hash, deleted) \<and>
             stored_users h' =
               (stored_users h)[i := (spec_update req (clock env 0) info, hash, deleted)])" .
  then show "map ?frame (stored_users h') = map ?frame (stored_users h)"
  proof
    assume "stored_users h' = stored_users h"
    then show ?thesis by simp
  next
    assume "\<exists>req i info hash deleted. body = Bound req \<and> i < length (stored_users h) \<and>
             stored_users h ! i = (info, hash, deleted) \<and>
             stored_users h' =
               (stored_users h)[i := (spec_update req (clock env 0) info, hash, deleted)]"
    then obtain req i info hash deleted where i: "i < length (stored_users h)"
      "stored_users h ! i = (info, hash, deleted)"
      "stored_users h' =
         (stored_users h)[i := (spec_update req (clock env 0) info, hash, deleted)]"
      by blast
    have "map ?frame (stored_users h') =
        (map ?frame (stored_users h))[i := ?frame (spec_update req (clock env 0) info, hash, deleted)]"
      by (simp only: i(3) map_update)
    also have "\<dots> = (map ?frame (stored_users h))[i := ?frame (stored_users h ! i)]"
      by (simp only: frame_spec_update i(2))
    also have "\<dots> = map ?frame (stored_users h)"
      using i(1) by (simp add: list_update_same_conv)
    finally show ?thesis .
  qed
next
  fix req r
  assume "body = Bound req \<and> reply = JSON StatusOK r"
  with assms(1) have "UpdateProfile env h c (Bound req) = (h', JSON StatusOK r)" by simp
  from UpdateProfile_ok [OF this assms(2)]
  show "\<exists>i info hash. i < length (stored_users h) \<and>
               stored_users h ! i = (info, hash, None) \<and>
               caller h c = Some (UserInfo.ID info) \<and>
               stored_users h' =
                 (stored_users h)[i := (spec_update req (clock env 0) info, hash, None)] \<and>
               r = SuccessResponse
                     (Get (localizer h) (GetString c ''language'') ''user_updated'')
                     (UserData (spec_update req (clock env 0) info))" .
qed

text \<open>
  The request with an empty first name and last name \<^verbatim>\<open>Smith\<close>. On the document backend
  Carol's token carries her ObjectID as a string, the middleware passes it on, and the
  update changes her last name and update time only. The relational handler does the
  same for Alice when \<^verbatim>\<open>user_id\<close> holds the string \<^verbatim>\<open>1\<close>.
\<close>

lemma smith_relational:
  "UpdateProfile example_env relational as_alice (Bound smith) =
     (relational\<lparr>postgresDB :=
        Some [alice\<lparr>User.LastName := ''Smith'', User.UpdatedAt := 1000\<rparr>, bob]\<rparr>,
      JSON StatusOK
        (SuccessResponse ''user_updated''
           (UserData (userInfo (alice\<lparr>User.LastName := ''Smith'', User.UpdatedAt := 1000\<rparr>)))))"
  by (simp add: UpdateProfile_def UpdateProfile_postgres_def Let_def as_alice_def GetString_def
        parse_1 relational_def pg_First_def pg_Save_def visible_def alice_def bob_def smith_def
        example_env_def example_localizer_def Get_def)

lemma carol_updates:
  "\<exists>c. JWTAuth (hs256 example_lib) 2000 ''secret'' (Bearer carol_token) Map.empty = Next c \<and>
       c ''user_id'' = Some (IStr ''507f191e810c19729de860ea'') \<and>
       stored_users (fst (UpdateProfile example_env document c (Bound smith))) =
         [((userInfoMongo carol)\<lparr>UserInfo.LastName := ''Smith'', UserInfo.UpdatedAt := 1000\<rparr>,
           UserMongo.Password carol, None),
          (userInfoMongo dave, UserMongo.Password dave, None)]"
proof -
  let ?c = "[''user_id'' \<mapsto> IStr ''507f191e810c19729de860ea'',
            ''user_email'' \<mapsto> IStr ''carol@example.com'',
            ''user_username'' \<mapsto> IStr ''carol'', ''user_role'' \<mapsto> IStr ''user'']"
  have auth:
    "JWTAuth (hs256 example_lib) 2000 ''secret'' (Bearer carol_token) Map.empty = Next ?c"
    by (simp add: JWTAuth_def ValidateToken_def ParseWithClaims_def carol_token_def
          example_lib_def Hour_def)
  have "UpdateProfile example_env document ?c (Bound smith) =
     (document\<lparr>mongoDB :=
        Some [carol\<lparr>UserMongo.UpdatedAt := 1000, UserMongo.LastName := ''Smith''\<rparr>, dave]\<rparr>,
      JSON StatusOK
        (SuccessResponse ''user_updated''
           (UserData
              (userInfoMongo
                 (carol\<lparr>UserMongo.UpdatedAt := 1000, UserMongo.LastName := ''Smith''\<rparr>)))))"
    by (simp add: UpdateProfile_def UpdateProfile_mongo_def Let_def GetString_def
          carol_hex document_def mongo_UpdateOne_def mongo_FindOne_def carol_def dave_def
          smith_def example_env_def example_localizer_def Get_def)
  then have "stored_users (fst (UpdateProfile example_env document ?c (Bound smith))) =
         [((userInfoMongo carol)\<lparr>UserInfo.LastName := ''Smith'', UserInfo.UpdatedAt := 1000\<rparr>,
           UserMongo.Password carol, None),
          (userInfoMongo dave, UserMongo.Password dave, None)]"
    by (simp add: stored_users_def document_def userInfoMongo_def carol_def dave_def)
  with auth show ?thesis by simp
qed

text \<open>
  Claim C6 fails on the relational backend. The tokens of that backend carry the user's
  key as a number; the middleware puts it under \<^verbatim>\<open>user_id\<close> as it is, \<^verbatim>\<open>GetString\<close> reads
  a value that is not a string as the empty string, and \<^verbatim>\<open>ParseUint\<close> turns that into
  key 0. So for every verified token with a numeric identity and every update request,
  the handler looks up key 0 whoever the caller is, and when no row has that key it
  answers 404 and stores nothing: no supplied field is changed and the update time is
  not refreshed, also when the caller's own row exists.
\<close>

theorem UpdateProfile_numeric_identity:
  assumes "postgresDB h = Some rows"
    and "JWTAuth sign now secret (Bearer tok) c0 = Next c"
    and "ValidateToken sign now secret tok = Inr claims"
    and "Claims.UserID claims = INum n"
    and "\<not> list_ex (\<lambda>u. visible u \<and> User.ID u = 0) rows"
  shows "UpdateProfile env h c (Bound req) =
           (h, JSON StatusNotFound
                 (ErrorResponse (Get (localizer h) (GetString c0 ''language'') ''user_not_found'')
                    ''User not found''))"
proof -
  from assms(2,3,4) have id: "GetString c ''user_id'' = []"
    and lang: "GetString c ''language'' = GetString c0 ''language''"
    by (auto simp: JWTAuth_def GetString_def)
  from assms(5) have "find (\<lambda>u. visible u \<and> User.ID u = 0) rows = None"
    by (induction rows) auto
  with assms(1) id lang show ?thesis
    by (simp add: UpdateProfile_def UpdateProfile_postgres_def ParseUint_def pg_First_def
          Let_def)
qed

text \<open>
  The theorem at work: Alice, stored under key 1 with last name \<^verbatim>\<open>Liddell\<close>, logs in and
  receives her token; the middleware accepts it and sets \<^verbatim>\<open>user_id\<close> to the number 1;
  her request to change her last name to \<^verbatim>\<open>Smith\<close> is answered 404 and the stored users
  stay as they were, although the lookup of key 1 finds her.
\<close>

theorem UpdateProfile_numeric_identity_witness:
  "Login example_lib example_env relational Map.empty
     (Bound \<lparr>LoginRequest.Email = ''alice@example.com'',
              LoginRequest.Password = ''wonderland''\<rparr>) =
   JSON StatusOK
     (SuccessResponse ''login_successful''
        (AuthData \<lparr>AuthResponse.Token = alice_token, AuthResponse.User = userInfo alice,
                    AuthResponse.ExpiresAt = 1000 + 24 * Hour\<rparr>)) \<and>
   (\<exists>c. JWTAuth (hs256 example_lib) 2000 ''secret'' (Bearer alice_token) Map.empty = Next c \<and>
        c ''user_id'' = Some (INum 1) \<and>
        UpdateProfile example_env relational c (Bound smith) =
          (relational,
           JSON StatusNotFound (ErrorResponse ''user_not_found'' ''User not found''))) \<and>
   postgresDB relational = Some [alice, bob] \<and>
   User.LastName alice = ''Liddell'' \<and>
   pg_First False (\<lambda>u. User.ID u = 1) [alice, bob] = Inr alice"
proof -
  let ?claims = "\<lparr>Claims.UserID = INum 1, Claims.Email = ''alice@example.com'',
               Claims.Username = ''alice'', Claims.Role = ''user'',
               Claims.ExpiresAt = Some (1000 + 24 * Hour), Claims.IssuedAt = Some 1000,
               Claims.NotBefore = Some 1000\<rparr>"
  let ?c = "[''user_id'' \<mapsto> INum 1, ''user_email'' \<mapsto> IStr ''alice@example.com'',
            ''user_username'' \<mapsto> IStr ''alice'', ''user_role'' \<mapsto> IStr ''user'']"
  have valid: "ValidateToken (hs256 example_lib) 2000 ''secret'' alice_token = Inr ?claims"
    by (simp add: ValidateToken_def ParseWithClaims_def alice_token_def example_lib_def Hour_def)
  then have auth:
    "JWTAuth (hs256 example_lib) 2000 ''secret'' (Bearer alice_token) Map.empty = Next ?c"
    by (simp add: JWTAuth_def)
  have db: "postgresDB relational = Some [alice, bob]"
    by (simp add: relational_def)
  have no0: "\<not> list_ex (\<lambda>u. visible u \<and> User.ID u = 0) [alice, bob]"
    by (simp add: alice_def bob_def)
  have "UpdateProfile example_env relational ?c (Bound smith) =
          (relational,
           JSON StatusNotFound (ErrorResponse ''user_not_found'' ''User not found''))"
    using UpdateProfile_numeric_identity [OF db auth valid _ no0, of 1 example_env smith]
    by (simp add: relational_def example_localizer_def Get_def GetString_def)
  moreover have "pg_First False (\<lambda>u. User.ID u = 1) [alice, bob] = Inr alice"
    by (simp add: pg_First_def alice_def bob_def visible_def)
  moreover have "User.LastName alice = ''Liddell''"
    by (simp add: alice_def)
  ultimately show ?thesis using alice_logs_in auth db by simp
qed

subsection \<open>No uniqueness check on a new e-mail address\<close>



end
